theory Spec2Isabelle
  imports Main "HOL-Library.Word" "HOL-Library.Sublist" "HOL-Library.Multiset"
begin

section \<open>Go values\<close>

text \<open>
  Sizes are Go \<open>int64\<close>: a 64-bit word, read as two's complement by \<open>sint\<close>, whose
  \<open>+\<close> wraps. An \<open>error\<close> value is represented by its message, \<open>nil\<close> by \<open>None\<close>.
  A call either returns or panics.
\<close>

type_synonym int64 = "64 word"
type_synonym error = string

datatype 'a go = Panic string | Return 'a

subsection \<open>Package strings\<close>

text \<open>
  A Go string is a sequence of bytes; \<open>char\<close> is one byte. White space is what
  \<open>unicode.IsSpace\<close> accepts, given here by the UTF-8 encodings of those code points:
  tab, line feed, vertical tab, form feed, carriage return, space, U+0085, U+00A0, U+1680,
  U+2000 to U+200A, U+2028, U+2029, U+202F, U+205F and U+3000.
\<close>

definition HasPrefix :: "string \<Rightarrow> string \<Rightarrow> bool" where
  "HasPrefix s p = prefix p s"

fun Contains :: "string \<Rightarrow> string \<Rightarrow> bool" where
  "Contains [] substr = (substr = [])"
| "Contains (c # cs) substr = (prefix substr (c # cs) \<or> Contains cs substr)"

text \<open>\<open>strings.Index\<close>: the position of the first occurrence, or \<open>-1\<close>.\<close>

fun Index :: "string \<Rightarrow> string \<Rightarrow> int" where
  "Index [] substr = (if substr = [] then 0 else - 1)"
| "Index (c # cs) substr =
     (if prefix substr (c # cs) then 0
      else (let r = Index cs substr in if r = - 1 then - 1 else r + 1))"

text \<open>\<open>s[:j]\<close> panics when \<open>j\<close> is negative or beyond the length.\<close>

definition sliceTo :: "string \<Rightarrow> int \<Rightarrow> string go" where
  "sliceTo s j =
     (if 0 \<le> j \<and> j \<le> int (length s) then Return (take (nat j) s)
      else Panic ''slice bounds out of range'')"

definition spaceSeqs :: "nat list list" where
  "spaceSeqs =
     [[0x09], [0x0A], [0x0B], [0x0C], [0x0D], [0x20],
      [0xC2, 0x85], [0xC2, 0xA0], [0xE1, 0x9A, 0x80],
      [0xE2, 0x80, 0x80], [0xE2, 0x80, 0x81], [0xE2, 0x80, 0x82], [0xE2, 0x80, 0x83],
      [0xE2, 0x80, 0x84], [0xE2, 0x80, 0x85], [0xE2, 0x80, 0x86], [0xE2, 0x80, 0x87],
      [0xE2, 0x80, 0x88], [0xE2, 0x80, 0x89], [0xE2, 0x80, 0x8A],
      [0xE2, 0x80, 0xA8], [0xE2, 0x80, 0xA9], [0xE2, 0x80, 0xAF],
      [0xE2, 0x81, 0x9F], [0xE3, 0x80, 0x80]]"

text \<open>The width in bytes of the white-space rune a string starts (ends) with; 0 if none.\<close>

definition spaceWidth :: "string \<Rightarrow> nat" where
  "spaceWidth s =
     (case find (\<lambda>q. prefix q (map of_char s)) spaceSeqs of
        None \<Rightarrow> 0 | Some q \<Rightarrow> length q)"

definition spaceWidthLast :: "string \<Rightarrow> nat" where
  "spaceWidthLast s =
     (case find (\<lambda>q. suffix q (map of_char s)) spaceSeqs of
        None \<Rightarrow> 0 | Some q \<Rightarrow> length q)"

lemma spaceWidth_le: "spaceWidth s \<le> length s"
proof (cases "find (\<lambda>q. prefix q (map of_char s)) spaceSeqs")
  case None
  then show ?thesis by (simp add: spaceWidth_def)
next
  case (Some q)
  then have "prefix q (map of_char s)"
    by (auto simp: find_Some_iff)
  then have "length q \<le> length s"
    by (auto dest: prefix_length_le)
  with Some show ?thesis by (simp add: spaceWidth_def)
qed

lemma spaceWidthLast_le: "spaceWidthLast s \<le> length s"
proof (cases "find (\<lambda>q. suffix q (map of_char s)) spaceSeqs")
  case None
  then show ?thesis by (simp add: spaceWidthLast_def)
next
  case (Some q)
  then have "suffix q (map of_char s)"
    by (auto simp: find_Some_iff)
  then have "length q \<le> length s"
    by (auto dest: suffix_length_le)
  with Some show ?thesis by (simp add: spaceWidthLast_def)
qed

function trimLeft :: "string \<Rightarrow> string" where
  "trimLeft s = (if spaceWidth s = 0 then s else trimLeft (drop (spaceWidth s) s))"
  by pat_completeness auto
termination
proof (relation "measure length")
  fix s :: string
  assume "spaceWidth s \<noteq> 0"
  moreover have "spaceWidth s \<le> length s" by (rule spaceWidth_le)
  ultimately show "(drop (spaceWidth s) s, s) \<in> measure length" by simp
qed simp

function trimRight :: "string \<Rightarrow> string" where
  "trimRight s =
     (if spaceWidthLast s = 0 then s
      else trimRight (take (length s - spaceWidthLast s) s))"
  by pat_completeness auto
termination
proof (relation "measure length")
  fix s :: string
  assume "spaceWidthLast s \<noteq> 0"
  moreover have "spaceWidthLast s \<le> length s" by (rule spaceWidthLast_le)
  ultimately show "(take (length s - spaceWidthLast s) s, s) \<in> measure length" by simp
qed simp

declare trimLeft.simps [simp del] trimRight.simps [simp del]

definition TrimSpace :: "string \<Rightarrow> string" where
  "TrimSpace s = trimRight (trimLeft s)"

text \<open>
  \<open>strings.Fields\<close>: the maximal runs of bytes between white space. \<open>cur\<close> is the field
  being read.
\<close>

function fieldsFrom :: "string \<Rightarrow> string \<Rightarrow> string list" where
  "fieldsFrom s cur =
     (if s = [] then (if cur = [] then [] else [cur])
      else if spaceWidth s = 0 then fieldsFrom (tl s) (cur @ [hd s])
      else (if cur = [] then [] else [cur]) @ fieldsFrom (drop (spaceWidth s) s) [])"
  by pat_completeness auto
termination
proof (relation "measure (\<lambda>(s, cur). length s)")
  fix s cur :: string
  assume "s \<noteq> []" and "spaceWidth s \<noteq> 0"
  moreover have "spaceWidth s \<le> length s" by (rule spaceWidth_le)
  ultimately show "((drop (spaceWidth s) s, []), (s, cur)) \<in> measure (\<lambda>(s, cur). length s)"
    by simp
qed simp_all

declare fieldsFrom.simps [simp del]

definition Fields :: "string \<Rightarrow> string list" where
  "Fields s = fieldsFrom s []"

text \<open>
  \<open>strings.ToLower\<close> on the ASCII letters. Go maps a code point outside ASCII through the
  Unicode tables; those bytes are kept as they are here. No code point outside ASCII has
  a lower case in ASCII other than \<open>k\<close> and \<open>i\<close>, so comparisons of the result with
  \<open>y\<close> and \<open>yes\<close> are not affected.
\<close>

definition toLowerByte :: "char \<Rightarrow> char" where
  "toLowerByte c =
     (if (0x41::nat) \<le> of_char c \<and> of_char c \<le> (0x5A::nat)
      then char_of (of_char c + (0x20::nat)) else c)"

definition ToLower :: "string \<Rightarrow> string" where
  "ToLower s = map toLowerByte s"

section \<open>Package core: the data model\<close>

datatype InstallSource =
  SourceVersionManager | SourceHomebrew | SourceSystem | SourceManual | SourceUnknown

record Installation =
  Version :: string
  Source :: InstallSource
  BinaryPath :: string
  ManagerPath :: string

record DiskUsageItem =
  Path :: string
  Description :: string
  Size :: int64

record DiskUsage =
  Items :: "DiskUsageItem list"
  Total :: int64

text \<open>
  \<open>CleanableItem\<close> has the fields \<open>Path\<close>, \<open>Description\<close>, \<open>Size\<close> of a
  \<open>DiskUsageItem\<close>, in that order, followed by \<open>Command\<close> and \<open>Safe\<close>.
\<close>

record CleanableItem = DiskUsageItem +
  Command :: string
  Safe :: bool

text \<open>
  \<open>ItemsCleaned\<close> is a Go \<open>int\<close> that is only ever incremented once per element of a
  slice, whose length fits an \<open>int\<close>: it cannot wrap, and is a natural number here.
\<close>

record CleanResult =
  ItemsCleaned :: nat
  SpaceReclaimed :: int64
  Errors :: "error list"

section \<open>The operating system\<close>

text \<open>
  What the program asks of the operating system and of the Go library, over a state
  \<open>'w\<close> of the machine (its file system). Reads take the state; \<open>RemoveAll\<close> and
  \<open>Run\<close> (starting a subprocess and waiting for it) also return the state they leave.
  \<^item> \<open>UserHomeDir\<close>: \<open>os.UserHomeDir\<close>, \<open>None\<close> when it fails;
  \<^item> \<open>Getenv\<close>: \<open>os.Getenv\<close>;
  \<^item> \<open>Join\<close>: \<open>filepath.Join\<close> of two elements;
  \<^item> \<open>Stat\<close>: whether \<open>os.Stat\<close> succeeds;
  \<^item> \<open>WalkDir\<close>: the calls \<open>filepath.WalkDir\<close> makes to its callback, in order;
  \<^item> \<open>LookPath\<close>: \<open>exec.LookPath\<close>; \<open>EvalSymlinks\<close>: \<open>filepath.EvalSymlinks\<close>;
  \<^item> \<open>Output\<close>: the output of a subprocess that only reports (\<open>go env\<close>, a version
    flag), \<open>None\<close> when it fails;
  \<^item> \<open>RemoveAll\<close>: \<open>os.RemoveAll\<close>, with the error it returns;
  \<^item> \<open>Run\<close>: \<open>exec.Command(name, args...)\<close> run to its end, with the error and the
    combined output.
\<close>

datatype walk_entry =
  WalkErr error         \<comment> \<open>the callback is called with \<open>err != nil\<close>\<close>
  | WalkDirectory       \<comment> \<open>\<open>d.IsDir()\<close> holds\<close>
  | WalkFile "error + int64"  \<comment> \<open>\<open>d.Info()\<close>: an error, or the \<open>Size()\<close> of the info\<close>

record 'w sys =
  UserHomeDir :: "string option"
  Getenv :: "string \<Rightarrow> string"
  Join :: "string \<Rightarrow> string \<Rightarrow> string"
  Stat :: "'w \<Rightarrow> string \<Rightarrow> bool"
  WalkDir :: "'w \<Rightarrow> string \<Rightarrow> walk_entry list"
  LookPath :: "'w \<Rightarrow> string \<Rightarrow> string option"
  EvalSymlinks :: "'w \<Rightarrow> string \<Rightarrow> string option"
  Output :: "'w \<Rightarrow> string \<Rightarrow> string list \<Rightarrow> string option"
  RemoveAll :: "string \<Rightarrow> 'w \<Rightarrow> error option \<times> 'w"
  Run :: "string \<Rightarrow> string list \<Rightarrow> 'w \<Rightarrow> (error option \<times> string) \<times> 'w"

section \<open>Package scanner\<close>

definition ExpandHome :: "'w sys \<Rightarrow> string \<Rightarrow> string" where
  "ExpandHome os path =
     (if HasPrefix path ''~/'' then
        (case UserHomeDir os of
           None \<Rightarrow> path
         | Some home \<Rightarrow> Join os home (drop 2 path))
      else path)"

definition PathExists :: "'w sys \<Rightarrow> 'w \<Rightarrow> string \<Rightarrow> bool" where
  "PathExists os w path = Stat os w (ExpandHome os path)"

definition FindExecutable :: "'w sys \<Rightarrow> 'w \<Rightarrow> string \<Rightarrow> error + string" where
  "FindExecutable os w name =
     (case LookPath os w name of None \<Rightarrow> Inl ''executable file not found in $PATH'' | Some p \<Rightarrow> Inr p)"

text \<open>\<open>filepath.EvalSymlinks\<close> returns the empty path together with its error.\<close>

definition ResolveSymlink :: "'w sys \<Rightarrow> 'w \<Rightarrow> string \<Rightarrow> string \<times> error option" where
  "ResolveSymlink os w path =
     (case EvalSymlinks os w path of None \<Rightarrow> ([], Some ''eval symlinks'') | Some p \<Rightarrow> (p, None))"

definition GetEnvVar :: "'w sys \<Rightarrow> string \<Rightarrow> string" where
  "GetEnvVar os name = Getenv os name"

text \<open>
  The callback \<open>CalculateDirSize\<close> gives to \<open>filepath.WalkDir\<close>, on one call: the size
  so far, updated, and the error the callback returns (always \<open>nil\<close>).
\<close>

fun walkFn :: "walk_entry \<Rightarrow> int64 \<Rightarrow> int64 \<times> error option" where
  "walkFn (WalkErr e) sz = (sz, None)"
| "walkFn WalkDirectory sz = (sz, None)"
| "walkFn (WalkFile (Inl e)) sz = (sz, None)"
| "walkFn (WalkFile (Inr n)) sz = (sz + n, None)"

text \<open>
  \<open>filepath.WalkDir\<close> stops at the first error its callback returns and returns that
  error; it returns no error of its own.
\<close>

fun runWalk :: "(walk_entry \<Rightarrow> 's \<Rightarrow> 's \<times> error option) \<Rightarrow> walk_entry list \<Rightarrow> 's \<Rightarrow> 's \<times> error option" where
  "runWalk fn [] st = (st, None)"
| "runWalk fn (e # es) st =
     (case fn e st of
        (st', Some err) \<Rightarrow> (st', Some err)
      | (st', None) \<Rightarrow> runWalk fn es st')"

definition CalculateDirSize :: "'w sys \<Rightarrow> 'w \<Rightarrow> string \<Rightarrow> int64 \<times> error option" where
  "CalculateDirSize os w path =
     (let expandedPath = ExpandHome os path in
      if \<not> PathExists os w expandedPath then (0, None)
      else
        (case runWalk walkFn (WalkDir os w expandedPath) 0 of
           (sz, Some err) \<Rightarrow> (0, Some err)
         | (sz, None) \<Rightarrow> (sz, None)))"

section \<open>Package cleaner\<close>

text \<open>
  What \<open>bufio.Reader.ReadString\<close> returns at the prompt: a line up to and with its
  line feed, or an error together with what was read before it.
\<close>

datatype read_result = ReadLine string | ReadFailed string error

text \<open>
  \<open>ConfirmClean\<close> prints the items and the total, then reads the answer. Only the
  decision is modelled; the printing is the step \<open>ConfirmPrompt\<close> of the orchestrator.
\<close>

definition ConfirmClean :: "CleanableItem list \<Rightarrow> int64 \<Rightarrow> read_result \<Rightarrow> bool" where
  "ConfirmClean items totalSize stdin =
     (case stdin of
        ReadFailed partial err \<Rightarrow> False
      | ReadLine response \<Rightarrow>
          (let response = ToLower (TrimSpace response)
           in response = ''y'' \<or> response = ''yes''))"

text \<open>
  The two ways every clean loop ends an item: \<open>result.ItemsCleaned++;
  result.SpaceReclaimed += item.Size\<close>, and \<open>result.Errors = append(result.Errors,
  fmt.Errorf("failed to clean %s: %w", item.Description, err))\<close>.
\<close>

definition cleaned :: "CleanResult \<Rightarrow> CleanableItem \<Rightarrow> CleanResult" where
  "cleaned result item =
     result\<lparr>ItemsCleaned := ItemsCleaned result + 1,
            SpaceReclaimed := SpaceReclaimed result + Size item\<rparr>"

definition failedToClean :: "CleanResult \<Rightarrow> CleanableItem \<Rightarrow> error \<Rightarrow> CleanResult" where
  "failedToClean result item err =
     result\<lparr>Errors := Errors result @ [''failed to clean '' @ Description item @ '': '' @ err]\<rparr>"

definition emptyResult :: CleanResult where
  "emptyResult = \<lparr>ItemsCleaned = 0, SpaceReclaimed = 0, Errors = []\<rparr>"

definition CleanDirectory :: "'w sys \<Rightarrow> string \<Rightarrow> 'w \<Rightarrow> error option \<times> 'w" where
  "CleanDirectory os path w =
     (let expandedPath = ExpandHome os path in
      if \<not> PathExists os w expandedPath then (None, w)
      else RemoveAll os expandedPath w)"

definition RunCleanCommand :: "'w sys \<Rightarrow> string \<Rightarrow> 'w \<Rightarrow> error option \<times> 'w" where
  "RunCleanCommand os cmdStr w =
     (let parts = Fields cmdStr in
      if length parts = 0 then (Some ''empty command'', w)
      else
        (case Run os (hd parts) (tl parts) w of
           ((Some err, output), w') \<Rightarrow>
             (Some (''command failed: '' @ err @ '' (output: '' @ output @ '')''), w')
         | ((None, output), w') \<Rightarrow> (None, w')))"

fun CleanItems_loop ::
  "'w sys \<Rightarrow> bool \<Rightarrow> CleanableItem list \<Rightarrow> CleanResult \<Rightarrow> 'w \<Rightarrow> CleanResult \<times> 'w" where
  "CleanItems_loop os dry [] result w = (result, w)"
| "CleanItems_loop os dry (item # items) result w =
     (if dry then CleanItems_loop os dry items (cleaned result item) w
      else
        (case (if Command item \<noteq> [] then RunCleanCommand os (Command item) w
               else if Path item \<noteq> [] then CleanDirectory os (Path item) w
               else (None, w)) of
           (Some err, w') \<Rightarrow> CleanItems_loop os dry items (failedToClean result item err) w'
         | (None, w') \<Rightarrow> CleanItems_loop os dry items (cleaned result item) w'))"

definition CleanItems ::
  "'w sys \<Rightarrow> CleanableItem list \<Rightarrow> bool \<Rightarrow> 'w \<Rightarrow> (CleanResult \<times> error option) \<times> 'w" where
  "CleanItems os items dry w =
     (case CleanItems_loop os dry items emptyResult w of
        (result, w') \<Rightarrow> ((result, None), w'))"

section \<open>Package providers: Clean\<close>

text \<open>
  Each provider's \<open>Clean\<close> returns a pointer to its result and an error; the pointer
  is \<open>Some\<close> result. The second component is the machine the call leaves.
\<close>

fun GoProvider_Clean_loop ::
  "'w sys \<Rightarrow> CleanableItem list \<Rightarrow> CleanResult \<Rightarrow> 'w \<Rightarrow> CleanResult \<times> 'w" where
  "GoProvider_Clean_loop os [] result w = (result, w)"
| "GoProvider_Clean_loop os (item # items) result w =
     (if Command item \<noteq> [] then
        (case Run os ''sh'' [''-c'', Command item] w of
           ((Some err, output), w') \<Rightarrow>
             GoProvider_Clean_loop os items (failedToClean result item err) w'
         | ((None, output), w') \<Rightarrow> GoProvider_Clean_loop os items (cleaned result item) w')
      else GoProvider_Clean_loop os items (cleaned result item) w)"

definition GoProvider_Clean ::
  "'w sys \<Rightarrow> CleanableItem list \<Rightarrow> 'w \<Rightarrow> (CleanResult option \<times> error option) go \<times> 'w" where
  "GoProvider_Clean os items w =
     (case GoProvider_Clean_loop os items emptyResult w of
        (result, w') \<Rightarrow> (Return (Some result, None), w'))"

text \<open>\<open>parts[0]\<close> panics when the command has no field.\<close>

fun NodeProvider_Clean_loop ::
  "'w sys \<Rightarrow> CleanableItem list \<Rightarrow> CleanResult \<Rightarrow> 'w \<Rightarrow> CleanResult go \<times> 'w" where
  "NodeProvider_Clean_loop os [] result w = (Return result, w)"
| "NodeProvider_Clean_loop os (item # items) result w =
     (if Command item \<noteq> [] then
        (let parts = Fields (Command item) in
         if parts = [] then (Panic ''index out of range [0] with length 0'', w)
         else
           (case Run os (hd parts) (tl parts) w of
              ((Some err, output), w') \<Rightarrow>
                NodeProvider_Clean_loop os items (failedToClean result item err) w'
            | ((None, output), w') \<Rightarrow>
                NodeProvider_Clean_loop os items (cleaned result item) w'))
      else NodeProvider_Clean_loop os items (cleaned result item) w)"

definition NodeProvider_Clean ::
  "'w sys \<Rightarrow> CleanableItem list \<Rightarrow> 'w \<Rightarrow> (CleanResult option \<times> error option) go \<times> 'w" where
  "NodeProvider_Clean os items w =
     (case NodeProvider_Clean_loop os items emptyResult w of
        (Panic msg, w') \<Rightarrow> (Panic msg, w')
      | (Return result, w') \<Rightarrow> (Return (Some result, None), w'))"

fun JavaProvider_Clean_loop ::
  "'w sys \<Rightarrow> CleanableItem list \<Rightarrow> CleanResult \<Rightarrow> 'w \<Rightarrow> CleanResult \<times> 'w" where
  "JavaProvider_Clean_loop os [] result w = (result, w)"
| "JavaProvider_Clean_loop os (item # items) result w =
     (if Path item \<noteq> [] then
        (let expandedPath = ExpandHome os (Path item) in
         case RemoveAll os expandedPath w of
           (Some err, w') \<Rightarrow> JavaProvider_Clean_loop os items (failedToClean result item err) w'
         | (None, w') \<Rightarrow> JavaProvider_Clean_loop os items (cleaned result item) w')
      else JavaProvider_Clean_loop os items (cleaned result item) w)"

definition JavaProvider_Clean ::
  "'w sys \<Rightarrow> CleanableItem list \<Rightarrow> 'w \<Rightarrow> (CleanResult option \<times> error option) go \<times> 'w" where
  "JavaProvider_Clean os items w =
     (case JavaProvider_Clean_loop os items emptyResult w of
        (result, w') \<Rightarrow> (Return (Some result, None), w'))"

fun PythonProvider_Clean_loop ::
  "'w sys \<Rightarrow> CleanableItem list \<Rightarrow> CleanResult \<Rightarrow> 'w \<Rightarrow> CleanResult \<times> 'w" where
  "PythonProvider_Clean_loop os [] result w = (result, w)"
| "PythonProvider_Clean_loop os (item # items) result w =
     (if Command item \<noteq> [] then
        (let parts = Fields (Command item) in
         if length parts > 0 then
           (case RemoveAll os (ExpandHome os (Path item)) w of
              (Some err, w') \<Rightarrow>
                PythonProvider_Clean_loop os items (failedToClean result item err) w'
            | (None, w') \<Rightarrow> PythonProvider_Clean_loop os items (cleaned result item) w')
         else PythonProvider_Clean_loop os items (cleaned result item) w)
      else PythonProvider_Clean_loop os items (cleaned result item) w)"

definition PythonProvider_Clean ::
  "'w sys \<Rightarrow> CleanableItem list \<Rightarrow> 'w \<Rightarrow> (CleanResult option \<times> error option) go \<times> 'w" where
  "PythonProvider_Clean os items w =
     (case PythonProvider_Clean_loop os items emptyResult w of
        (result, w') \<Rightarrow> (Return (Some result, None), w'))"

fun PHPProvider_Clean_loop ::
  "'w sys \<Rightarrow> CleanableItem list \<Rightarrow> CleanResult \<Rightarrow> 'w \<Rightarrow> CleanResult \<times> 'w" where
  "PHPProvider_Clean_loop os [] result w = (result, w)"
| "PHPProvider_Clean_loop os (item # items) result w =
     (if Command item \<noteq> [] then
        (if Path item \<noteq> [] then
           (case RemoveAll os (ExpandHome os (Path item)) w of
              (Some err, w') \<Rightarrow> PHPProvider_Clean_loop os items (failedToClean result item err) w'
            | (None, w') \<Rightarrow> PHPProvider_Clean_loop os items (cleaned result item) w')
         else PHPProvider_Clean_loop os items (cleaned result item) w)
      else PHPProvider_Clean_loop os items (cleaned result item) w)"

definition PHPProvider_Clean ::
  "'w sys \<Rightarrow> CleanableItem list \<Rightarrow> 'w \<Rightarrow> (CleanResult option \<times> error option) go \<times> 'w" where
  "PHPProvider_Clean os items w =
     (case PHPProvider_Clean_loop os items emptyResult w of
        (result, w') \<Rightarrow> (Return (Some result, None), w'))"

fun RustProvider_Clean_loop ::
  "'w sys \<Rightarrow> CleanableItem list \<Rightarrow> CleanResult \<Rightarrow> 'w \<Rightarrow> CleanResult \<times> 'w" where
  "RustProvider_Clean_loop os [] result w = (result, w)"
| "RustProvider_Clean_loop os (item # items) result w =
     (if Path item \<noteq> [] then
        (let expandedPath = ExpandHome os (Path item) in
         case RemoveAll os expandedPath w of
           (Some err, w') \<Rightarrow> RustProvider_Clean_loop os items (failedToClean result item err) w'
         | (None, w') \<Rightarrow> RustProvider_Clean_loop os items (cleaned result item) w')
      else if Command item \<noteq> [] then
        (case Run os ''sh'' [''-c'', Command item] w of
           ((Some err, output), w') \<Rightarrow>
             RustProvider_Clean_loop os items (failedToClean result item err) w'
         | ((None, output), w') \<Rightarrow> RustProvider_Clean_loop os items (cleaned result item) w')
      else RustProvider_Clean_loop os items (cleaned result item) w)"

definition RustProvider_Clean ::
  "'w sys \<Rightarrow> CleanableItem list \<Rightarrow> 'w \<Rightarrow> (CleanResult option \<times> error option) go \<times> 'w" where
  "RustProvider_Clean os items w =
     (case RustProvider_Clean_loop os items emptyResult w of
        (result, w') \<Rightarrow> (Return (Some result, None), w'))"

section \<open>Package providers: determineSource\<close>

definition GoProvider_determineSource :: "string \<Rightarrow> InstallSource" where
  "GoProvider_determineSource path =
     (if Contains path ''.goenv'' then SourceVersionManager
      else if Contains path ''/opt/homebrew'' \<or> Contains path ''/usr/local/Cellar''
        then SourceHomebrew
      else if Contains path ''/usr/local/go'' then SourceManual
      else SourceUnknown)"

definition NodeProvider_determineSource :: "string \<Rightarrow> InstallSource" where
  "NodeProvider_determineSource path =
     (if Contains path ''.nvm'' then SourceVersionManager
      else if Contains path ''.volta'' then SourceVersionManager
      else if Contains path ''/opt/homebrew'' \<or> Contains path ''/usr/local/Cellar''
        then SourceHomebrew
      else SourceUnknown)"

definition JavaProvider_determineSource :: "'w sys \<Rightarrow> string \<Rightarrow> InstallSource" where
  "JavaProvider_determineSource os path =
     (let javaHome = Getenv os ''JAVA_HOME'' in
      if Contains path ''.sdkman'' \<or> Contains javaHome ''.sdkman'' then SourceVersionManager
      else if Contains path ''/opt/homebrew'' \<or> Contains path ''/usr/local/Cellar''
        then SourceHomebrew
      else if Contains path ''/Library/Java'' then SourceManual
      else SourceUnknown)"

definition PythonProvider_determineSource :: "string \<Rightarrow> InstallSource" where
  "PythonProvider_determineSource path =
     (if Contains path ''.pyenv'' then SourceVersionManager
      else if Contains path ''anaconda'' \<or> Contains path ''miniconda'' then SourceVersionManager
      else if Contains path ''/opt/homebrew'' \<or> Contains path ''/usr/local/Cellar''
        then SourceHomebrew
      else if Contains path ''/usr/bin/python'' then SourceSystem
      else SourceUnknown)"

definition PHPProvider_determineSource :: "string \<Rightarrow> InstallSource" where
  "PHPProvider_determineSource path =
     (if Contains path ''.phpenv'' then SourceVersionManager
      else if Contains path ''/opt/homebrew'' \<or> Contains path ''/usr/local/Cellar''
        then SourceHomebrew
      else if Contains path ''/usr/bin/php'' then SourceSystem
      else SourceUnknown)"

definition RustProvider_determineSource :: "string \<Rightarrow> InstallSource" where
  "RustProvider_determineSource path =
     (if Contains path ''.cargo/bin'' then SourceVersionManager
      else if Contains path ''/opt/homebrew'' \<or> Contains path ''/usr/local/Cellar''
        then SourceHomebrew
      else SourceUnknown)"

subsection \<open>The classifier of the specification\<close>

text \<open>
  The specification's source classifier: an ordered list of rules, each a predicate
  over the path with the source it gives, evaluated from the top; the first rule whose
  predicate holds wins, and no match is \<open>Unknown\<close>. The rule lists are those of the six
  providers, in the order of their \<open>determineSource\<close>; Java's first rule also looks at
  the value of \<open>JAVA_HOME\<close>.
\<close>

type_synonym rule = "(string \<Rightarrow> bool) \<times> InstallSource"

fun classify :: "rule list \<Rightarrow> string \<Rightarrow> InstallSource" where
  "classify [] path = SourceUnknown"
| "classify ((matches, source) # rules) path =
     (if matches path then source else classify rules path)"

definition homebrewRule :: rule where
  "homebrewRule =
     (\<lambda>path. Contains path ''/opt/homebrew'' \<or> Contains path ''/usr/local/Cellar'',
      SourceHomebrew)"

definition GoRules :: "rule list" where
  "GoRules =
     [(\<lambda>path. Contains path ''.goenv'', SourceVersionManager),
      homebrewRule,
      (\<lambda>path. Contains path ''/usr/local/go'', SourceManual)]"

definition NodeRules :: "rule list" where
  "NodeRules =
     [(\<lambda>path. Contains path ''.nvm'', SourceVersionManager),
      (\<lambda>path. Contains path ''.volta'', SourceVersionManager),
      homebrewRule]"

definition JavaRules :: "string \<Rightarrow> rule list" where
  "JavaRules javaHome =
     [(\<lambda>path. Contains path ''.sdkman'' \<or> Contains javaHome ''.sdkman'', SourceVersionManager),
      homebrewRule,
      (\<lambda>path. Contains path ''/Library/Java'', SourceManual)]"

definition PythonRules :: "rule list" where
  "PythonRules =
     [(\<lambda>path. Contains path ''.pyenv'', SourceVersionManager),
      (\<lambda>path. Contains path ''anaconda'' \<or> Contains path ''miniconda'', SourceVersionManager),
      homebrewRule,
      (\<lambda>path. Contains path ''/usr/bin/python'', SourceSystem)]"

definition PHPRules :: "rule list" where
  "PHPRules =
     [(\<lambda>path. Contains path ''.phpenv'', SourceVersionManager),
      homebrewRule,
      (\<lambda>path. Contains path ''/usr/bin/php'', SourceSystem)]"

definition RustRules :: "rule list" where
  "RustRules =
     [(\<lambda>path. Contains path ''.cargo/bin'', SourceVersionManager),
      homebrewRule]"

section \<open>Package providers: GetGlobalCacheUsage of the PHP provider\<close>

text \<open>
  The total every \<open>GetGlobalCacheUsage\<close> ends with: \<open>total += item.Size\<close> over the
  items.
\<close>

definition totalOf :: "DiskUsageItem list \<Rightarrow> int64" where
  "totalOf items = foldl (\<lambda>sum item. sum + Size item) 0 items"

text \<open>
  The first block looks for a Homebrew installation: \<open>realPath[idx:]\<close> is within
  bounds, since \<open>idx\<close> is a position in \<open>realPath\<close>; the bound of
  \<open>realPath[:strings.Index(realPath[idx:], "/bin")+idx]\<close> is not checked. The error of
  \<open>ResolveSymlink\<close> is dropped, and so is that of \<open>CalculateDirSize\<close>.
\<close>

definition PHPProvider_installation ::
  "'w sys \<Rightarrow> 'w \<Rightarrow> DiskUsageItem list \<Rightarrow> DiskUsageItem list go" where
  "PHPProvider_installation os w items =
     (case FindExecutable os w ''php'' of
        Inl err \<Rightarrow> Return items
      | Inr phpPath \<Rightarrow>
          (let realPath = fst (ResolveSymlink os w phpPath) in
           if Contains realPath ''/opt/homebrew'' \<or> Contains realPath ''/usr/local/Cellar'' then
             (let idx = Index realPath ''/Cellar/php'' in
              if idx \<noteq> - 1 then
                (case sliceTo realPath (Index (drop (nat idx) realPath) ''/bin'' + idx) of
                   Panic msg \<Rightarrow> Panic msg
                 | Return phpDir \<Rightarrow>
                     if PathExists os w phpDir
                     then Return (items @ [\<lparr>Path = phpDir, Description = ''PHP Installation'',
                            Size = fst (CalculateDirSize os w phpDir)\<rparr>])
                     else Return items)
              else Return items)
           else Return items))"

definition PHPProvider_GetGlobalCacheUsage ::
  "'w sys \<Rightarrow> 'w \<Rightarrow> (DiskUsage option \<times> error option) go" where
  "PHPProvider_GetGlobalCacheUsage os w =
     (case PHPProvider_installation os w [] of
        Panic msg \<Rightarrow> Panic msg
      | Return items \<Rightarrow>
          (let composerCache = ''~/.composer/cache'';
               items =
                 (if PathExists os w composerCache
                  then items @ [\<lparr>Path = composerCache, Description = ''Composer Cache'',
                         Size = fst (CalculateDirSize os w composerCache)\<rparr>]
                  else items);
               composerVendor = ''~/.composer/vendor'';
               items =
                 (if PathExists os w composerVendor
                  then items @ [\<lparr>Path = composerVendor, Description = ''Composer Global Packages'',
                         Size = fst (CalculateDirSize os w composerVendor)\<rparr>]
                  else items)
           in Return (Some \<lparr>Items = items, Total = totalOf items\<rparr>, None)))"

section \<open>Package providers: GetGlobalCacheUsage of the other providers\<close>

text \<open>
  The block each of them repeats per location: \<open>if scanner.PathExists(path) { size, _ :=
  scanner.CalculateDirSize(path); items = append(items, core.DiskUsageItem{...}) }\<close>.
\<close>

definition measured ::
  "'w sys \<Rightarrow> 'w \<Rightarrow> string \<Rightarrow> string \<Rightarrow> DiskUsageItem list \<Rightarrow> DiskUsageItem list" where
  "measured os w path description items =
     (if PathExists os w path
      then items @ [\<lparr>Path = path, Description = description,
             Size = fst (CalculateDirSize os w path)\<rparr>]
      else items)"

text \<open>\<open>getGoEnv\<close>: the output of \<open>go env name\<close>, or the process environment.\<close>

definition getGoEnv :: "'w sys \<Rightarrow> 'w \<Rightarrow> string \<Rightarrow> string" where
  "getGoEnv os w name =
     (case Output os w ''go'' [''env'', name] of
        None \<Rightarrow> Getenv os name
      | Some output \<Rightarrow> TrimSpace output)"

definition GoProvider_GetGlobalCacheUsage ::
  "'w sys \<Rightarrow> 'w \<Rightarrow> (DiskUsage option \<times> error option) go" where
  "GoProvider_GetGlobalCacheUsage os w =
     (let items = [];
          goroot = getGoEnv os w ''GOROOT'';
          items = (if goroot \<noteq> [] then measured os w goroot ''SDK'' items else items);
          gocache = getGoEnv os w ''GOCACHE'';
          items = (if gocache \<noteq> [] then measured os w gocache ''Build Cache'' items else items);
          gomodcache = getGoEnv os w ''GOMODCACHE'';
          gomodcache =
            (if gomodcache = [] then
               (let gopath = getGoEnv os w ''GOPATH'' in
                if gopath \<noteq> [] then gopath @ ''/pkg/mod'' else gomodcache)
             else gomodcache);
          items = (if gomodcache \<noteq> [] then measured os w gomodcache ''Module Cache'' items
                   else items)
      in Return (Some \<lparr>Items = items, Total = totalOf items\<rparr>, None))"

definition NodeProvider_GetGlobalCacheUsage ::
  "'w sys \<Rightarrow> 'w \<Rightarrow> (DiskUsage option \<times> error option) go" where
  "NodeProvider_GetGlobalCacheUsage os w =
     (let items = [];
          items = measured os w ''~/.nvm/versions'' ''NVM Versions'' items;
          items = measured os w ''~/.npm/_cacache'' ''NPM Cache'' items;
          items = measured os w ''~/Library/Caches/Yarn'' ''Yarn Cache'' items;
          items = measured os w ''~/.yarn'' ''Yarn v2+ Cache'' items;
          items = measured os w ''~/.local/share/pnpm/store'' ''PNPM Store'' items
      in Return (Some \<lparr>Items = items, Total = totalOf items\<rparr>, None))"

definition JavaProvider_GetGlobalCacheUsage ::
  "'w sys \<Rightarrow> 'w \<Rightarrow> (DiskUsage option \<times> error option) go" where
  "JavaProvider_GetGlobalCacheUsage os w =
     (let items = [];
          items = measured os w ''~/.sdkman/candidates/java'' ''SDKMAN Java SDKs'' items;
          items = measured os w ''~/.m2/repository'' ''Maven Repository'' items;
          items = measured os w ''~/.gradle/caches'' ''Gradle Cache'' items
      in Return (Some \<lparr>Items = items, Total = totalOf items\<rparr>, None))"

definition PythonProvider_GetGlobalCacheUsage ::
  "'w sys \<Rightarrow> 'w \<Rightarrow> (DiskUsage option \<times> error option) go" where
  "PythonProvider_GetGlobalCacheUsage os w =
     (let items = [];
          items = measured os w ''~/.pyenv/versions'' ''Pyenv Versions'' items;
          items = measured os w ''~/Library/Caches/pip'' ''Pip Cache'' items;
          items = measured os w ''~/.virtualenvs'' ''Virtualenvs'' items
      in Return (Some \<lparr>Items = items, Total = totalOf items\<rparr>, None))"

definition RustProvider_GetGlobalCacheUsage ::
  "'w sys \<Rightarrow> 'w \<Rightarrow> (DiskUsage option \<times> error option) go" where
  "RustProvider_GetGlobalCacheUsage os w =
     (let items = [];
          items = measured os w ''~/.rustup/toolchains'' ''Rustup Toolchains'' items;
          items = measured os w ''~/.cargo/registry'' ''Cargo Registry'' items;
          items = measured os w ''~/.cargo/git'' ''Cargo Git Checkouts'' items
      in Return (Some \<lparr>Items = items, Total = totalOf items\<rparr>, None))"

section \<open>Package providers: GetCleanableItems of the Java provider\<close>

definition JavaProvider_GetCleanableItems ::
  "'w sys \<Rightarrow> 'w \<Rightarrow> (CleanableItem list \<times> error option) go" where
  "JavaProvider_GetCleanableItems os w =
     (let items = [];
          gradleCache = ''~/.gradle/caches'';
          items =
            (if PathExists os w gradleCache
             then items @ [\<lparr>Path = gradleCache, Description = ''Gradle Cache'',
                    Size = fst (CalculateDirSize os w gradleCache), Command = [], Safe = True\<rparr>]
             else items);
          mavenRepo = ''~/.m2/repository'';
          items =
            (if PathExists os w mavenRepo
             then items @ [\<lparr>Path = mavenRepo, Description = ''Maven Repository'',
                    Size = fst (CalculateDirSize os w mavenRepo), Command = [], Safe = False\<rparr>]
             else items)
      in Return (items, None))"

section \<open>Package cmd: the providers and the two orchestrators\<close>

text \<open>
  The interface \<open>core.LanguageProvider\<close>. A method returns or panics. The four
  methods that detect, measure and list read the machine and leave it as it is;
  \<open>Clean\<close> returns the machine it leaves. A pointer result is an \<open>option\<close>, \<open>None\<close>
  for \<open>nil\<close>; the map of \<open>GetEnvVars\<close> is a list of its entries.
\<close>

record 'w LanguageProvider =
  Name :: string
  DetectInstalled :: "'w \<Rightarrow> (Installation list \<times> error option) go"
  GetGlobalCacheUsage :: "'w \<Rightarrow> (DiskUsage option \<times> error option) go"
  GetEnvVars :: "'w \<Rightarrow> (string \<times> string) list"
  GetCleanableItems :: "'w \<Rightarrow> (CleanableItem list \<times> error option) go"
  Clean :: "CleanableItem list \<Rightarrow> 'w \<Rightarrow> (CleanResult option \<times> error option) go \<times> 'w"

text \<open>The package variables set from the command line.\<close>

record flags =
  dryRun :: bool
  force :: bool
  verbose :: bool

text \<open>
  What \<open>cleanProvider\<close> does that can be seen from outside, in order: the texts it
  prints (each named for what it shows) and its call of the provider's \<open>Clean\<close>.
\<close>

datatype step =
  PrintNoItems string
  | PrintPreview string "CleanableItem list"
  | PrintUnsafeWarning
  | ConfirmPrompt "CleanableItem list" int64
  | PrintCancelled
  | PrintCleaning string
  | CallClean "CleanableItem list"
  | PrintResult CleanResult "CleanableItem list"

text \<open>
  \<open>cleanProvider\<close>, with the answer \<open>stdin\<close> holds for the prompt: the error it returns
  (or its panic), its steps, and the machine it leaves. \<open>RenderCleanResult\<close> reads
  through the result pointer, so a \<open>nil\<close> result with a \<open>nil\<close> error panics.
\<close>

definition cleanProvider ::
  "flags \<Rightarrow> read_result \<Rightarrow> 'w LanguageProvider \<Rightarrow> 'w \<Rightarrow> (error option go \<times> step list) \<times> 'w" where
  "cleanProvider fl stdin provider w =
     (case GetCleanableItems provider w of
        Panic msg \<Rightarrow> ((Panic msg, []), w)
      | Return (items, Some err) \<Rightarrow>
          ((Return (Some (''failed to get cleanable items: '' @ err)), []), w)
      | Return (items, None) \<Rightarrow>
          if length items = 0 then ((Return None, [PrintNoItems (Name provider)]), w)
          else
            (let totalSize = foldl (\<lambda>sum item. sum + Size item) 0 items in
             if dryRun fl then ((Return None, [PrintPreview (Name provider) items]), w)
             else
               (let hasUnsafeItems = list_ex (\<lambda>item. \<not> Safe item) items;
                    asked =
                      (if \<not> force fl
                       then (if hasUnsafeItems then [PrintUnsafeWarning] else [])
                            @ [ConfirmPrompt items totalSize]
                       else [])
                in
                if \<not> force fl \<and> \<not> ConfirmClean items totalSize stdin
                then ((Return None, asked @ [PrintCancelled]), w)
                else
                  (let before =
                         asked @ (if verbose fl then [PrintCleaning (Name provider)] else [])
                         @ [CallClean items]
                   in
                   case Clean provider items w of
                     (Panic msg, w') \<Rightarrow> ((Panic msg, before), w')
                   | (Return (result, Some err), w') \<Rightarrow>
                       ((Return (Some (''cleaning failed: '' @ err)), before), w')
                   | (Return (None, None), w') \<Rightarrow>
                       ((Panic ''nil pointer dereference'', before), w')
                   | (Return (Some result, None), w') \<Rightarrow>
                       ((Return None, before @ [PrintResult result items]), w')))))"

text \<open>
  \<open>output.ScanResult\<close>. Its zero value, which \<open>make\<close> fills the result slice with, has
  no provider.
\<close>

record 'w ScanResult =
  Provider :: "'w LanguageProvider option"
  Installation :: "Installation option"
  DiskUsage :: "DiskUsage option"
  Error :: "error option"

definition zeroScanResult :: "'w ScanResult" where
  "zeroScanResult = \<lparr>Provider = None, Installation = None, DiskUsage = None, Error = None\<rparr>"

text \<open>\<open>scanProvider\<close>; the warning it prints when \<open>verbose\<close> is set is not modelled.\<close>

definition scanProvider :: "'w LanguageProvider \<Rightarrow> 'w \<Rightarrow> 'w ScanResult go" where
  "scanProvider provider w =
     (let result = zeroScanResult\<lparr>Provider := Some provider\<rparr> in
      case DetectInstalled provider w of
        Panic msg \<Rightarrow> Panic msg
      | Return (installations, Some err) \<Rightarrow> Return (result\<lparr>Error := Some err\<rparr>)
      | Return (installations, None) \<Rightarrow>
          if length installations = 0 then Return (result\<lparr>Error := Some ''not installed''\<rparr>)
          else
            (let result = result\<lparr>Installation := Some (installations ! 0)\<rparr> in
             case GetGlobalCacheUsage provider w of
               Panic msg \<Rightarrow> Panic msg
             | Return (diskUsage, Some err) \<Rightarrow>
                 Return (result\<lparr>DiskUsage := Some \<lparr>Items = [], Total = 0\<rparr>\<rparr>)
             | Return (diskUsage, None) \<Rightarrow> Return (result\<lparr>DiskUsage := diskUsage\<rparr>)))"

text \<open>
  \<open>scanProviders\<close> starts one goroutine per provider; goroutine \<open>index\<close> stores
  \<open>scanProvider(p)\<close> in \<open>results[index]\<close>, and \<open>wg.Wait()\<close> returns when all are done.
  The goroutines share nothing but the slice, each writing its own element, so a run is
  given by the order in which they complete: \<open>completed\<close> performs their stores in that
  order. A goroutine that panics ends the program.
\<close>

fun completed ::
  "'w LanguageProvider list \<Rightarrow> 'w \<Rightarrow> nat list \<Rightarrow> 'w ScanResult list \<Rightarrow> 'w ScanResult list go" where
  "completed providers w [] results = Return results"
| "completed providers w (index # order) results =
     (case scanProvider (providers ! index) w of
        Panic msg \<Rightarrow> Panic msg
      | Return r \<Rightarrow> completed providers w order (results[index := r]))"

definition scanProviders ::
  "'w LanguageProvider list \<Rightarrow> nat list \<Rightarrow> 'w \<Rightarrow> 'w ScanResult list go" where
  "scanProviders providers order w =
     completed providers w order (replicate (length providers) zeroScanResult)"

text \<open>An order of completion: every goroutine \<open>0 .. n - 1\<close> once.\<close>

definition completionOrder :: "nat \<Rightarrow> nat list \<Rightarrow> bool" where
  "completionOrder n order = (mset order = mset [0..<n])"

section \<open>What a clean does to one item, and the tally of a run\<close>

text \<open>
  The implementations of clean: \<open>cleaner.CleanItems\<close> and the \<open>Clean\<close> method of the
  six providers.
\<close>

datatype implementation = Cleaner | Golang | NodeJS | Java | Python | PHP | Rust

text \<open>Running a command line through \<open>sh -c\<close>, as \<open>cmd.Run()\<close>: the output is dropped.\<close>

definition shell :: "'w sys \<Rightarrow> string \<Rightarrow> 'w \<Rightarrow> error option \<times> 'w" where
  "shell os cmdStr w = (case Run os ''sh'' [''-c'', cmdStr] w of ((err, output), w') \<Rightarrow> (err, w'))"

text \<open>Running the first field of a command line with the other fields as arguments.\<close>

definition direct :: "'w sys \<Rightarrow> string \<Rightarrow> 'w \<Rightarrow> error option \<times> 'w" where
  "direct os cmdStr w =
     (case Run os (hd (Fields cmdStr)) (tl (Fields cmdStr)) w of ((err, output), w') \<Rightarrow> (err, w'))"

text \<open>
  The action each implementation takes on one item, with the error it ends in (if any)
  and the machine it leaves: the table the loops are compared with.
\<close>

fun actionOf :: "implementation \<Rightarrow> 'w sys \<Rightarrow> CleanableItem \<Rightarrow> 'w \<Rightarrow> error option \<times> 'w" where
  "actionOf Cleaner os item w =
     (if Command item \<noteq> [] then RunCleanCommand os (Command item) w
      else if Path item \<noteq> [] then CleanDirectory os (Path item) w
      else (None, w))"
| "actionOf Golang os item w =
     (if Command item \<noteq> [] then shell os (Command item) w else (None, w))"
| "actionOf NodeJS os item w =
     (if Command item \<noteq> [] then direct os (Command item) w else (None, w))"
| "actionOf Java os item w =
     (if Path item \<noteq> [] then RemoveAll os (ExpandHome os (Path item)) w else (None, w))"
| "actionOf Python os item w =
     (if Command item \<noteq> [] \<and> Fields (Command item) \<noteq> []
      then RemoveAll os (ExpandHome os (Path item)) w else (None, w))"
| "actionOf PHP os item w =
     (if Command item \<noteq> [] \<and> Path item \<noteq> []
      then RemoveAll os (ExpandHome os (Path item)) w else (None, w))"
| "actionOf Rust os item w =
     (if Path item \<noteq> [] then RemoveAll os (ExpandHome os (Path item)) w
      else if Command item \<noteq> [] then shell os (Command item) w
      else (None, w))"

text \<open>
  The items of a run in order, each with the error its action ended in, the actions
  taken one after the other on the machine; and the machine the run leaves.
\<close>

fun outcomes ::
  "(CleanableItem \<Rightarrow> 'w \<Rightarrow> error option \<times> 'w) \<Rightarrow> CleanableItem list \<Rightarrow> 'w \<Rightarrow>
   (CleanableItem \<times> error option) list" where
  "outcomes act [] w = []"
| "outcomes act (item # items) w =
     (case act item w of (err, w') \<Rightarrow> (item, err) # outcomes act items w')"

fun leaves :: "(CleanableItem \<Rightarrow> 'w \<Rightarrow> error option \<times> 'w) \<Rightarrow> CleanableItem list \<Rightarrow> 'w \<Rightarrow> 'w" where
  "leaves act [] w = w"
| "leaves act (item # items) w = (case act item w of (err, w') \<Rightarrow> leaves act items w')"

definition succeeded :: "(CleanableItem \<times> error option) list \<Rightarrow> CleanableItem list" where
  "succeeded out = map fst (filter (\<lambda>(item, err). err = None) out)"

definition failures :: "(CleanableItem \<times> error option) list \<Rightarrow> error list" where
  "failures out =
     concat (map (\<lambda>(item, err). case err of None \<Rightarrow> []
        | Some e \<Rightarrow> [''failed to clean '' @ Description item @ '': '' @ e]) out)"

text \<open>The result a run with these outcomes adds up to, from \<open>result\<close> on.\<close>

definition tally :: "(CleanableItem \<times> error option) list \<Rightarrow> CleanResult \<Rightarrow> CleanResult" where
  "tally out result =
     \<lparr>ItemsCleaned = ItemsCleaned result + length (succeeded out),
      SpaceReclaimed = SpaceReclaimed result + sum_list (map Size (succeeded out)),
      Errors = Errors result @ failures out\<rparr>"

text \<open>
  The source's clean of each implementation: \<open>CleanItems\<close> with \<open>dryRun\<close> unset, or
  the provider's \<open>Clean\<close>.
\<close>

fun cleanOf ::
  "implementation \<Rightarrow> 'w sys \<Rightarrow> CleanableItem list \<Rightarrow> 'w \<Rightarrow>
   (CleanResult option \<times> error option) go \<times> 'w" where
  "cleanOf Cleaner os items w =
     (case CleanItems os items False w of ((result, err), w') \<Rightarrow> (Return (Some result, err), w'))"
| "cleanOf Golang os items w = GoProvider_Clean os items w"
| "cleanOf NodeJS os items w = NodeProvider_Clean os items w"
| "cleanOf Java os items w = JavaProvider_Clean os items w"
| "cleanOf Python os items w = PythonProvider_Clean os items w"
| "cleanOf PHP os items w = PHPProvider_Clean os items w"
| "cleanOf Rust os items w = RustProvider_Clean os items w"

text \<open>A command that is not empty and has no field: white space only.\<close>

definition blankCommand :: "CleanableItem \<Rightarrow> bool" where
  "blankCommand item = (Command item \<noteq> [] \<and> Fields (Command item) = [])"

section \<open>A machine to run the program on\<close>

text \<open>
  A small machine, used to evaluate the program at concrete inputs: its state is the
  regular files it holds, each with its size, and the record of the deletions and the
  subprocesses asked of it. A path exists when it is a file or a directory above one.
  The home directory is \<open>/home/dev\<close>, no executable is on the search path unless
  \<open>demoWith\<close> puts one there, every subprocess succeeds except \<open>false\<close>, and
  \<open>RemoveAll\<close> removes the path with all below it and succeeds (on the empty path
  it removes nothing, as \<open>os.RemoveAll\<close> does).
\<close>

datatype call = RemoveAllCall string | RunCall string "string list"

record machine =
  files :: "(string \<times> int64) list"
  calls :: "call list"

definition under :: "string \<Rightarrow> string \<Rightarrow> bool" where
  "under p f = (f = p \<or> prefix (p @ ''/'') f)"

definition demoRemoveAll :: "string \<Rightarrow> machine \<Rightarrow> error option \<times> machine" where
  "demoRemoveAll p m =
     (None, m\<lparr>files := (if p = [] then files m else filter (\<lambda>(f, n). \<not> under p f) (files m)),
              calls := calls m @ [RemoveAllCall p]\<rparr>)"

definition demoRun :: "string \<Rightarrow> string list \<Rightarrow> machine \<Rightarrow> (error option \<times> string) \<times> machine" where
  "demoRun name args m =
     ((if name = ''false'' then Some ''exit status 1'' else None, []),
      m\<lparr>calls := calls m @ [RunCall name args]\<rparr>)"

definition demoWalkDir :: "machine \<Rightarrow> string \<Rightarrow> walk_entry list" where
  "demoWalkDir m p =
     (if list_ex (\<lambda>(f, n). under p f) (files m)
      then WalkDirectory # map (\<lambda>(f, n). WalkFile (Inr n)) (filter (\<lambda>(f, n). under p f) (files m))
      else [WalkErr ''lstat: no such file or directory''])"

definition demoWith :: "(string \<Rightarrow> string option) \<Rightarrow> machine sys" where
  "demoWith lookPath =
     \<lparr>UserHomeDir = Some ''/home/dev'',
      Getenv = (\<lambda>name. []),
      Join = (\<lambda>a b. a @ ''/'' @ b),
      Stat = (\<lambda>m p. list_ex (\<lambda>(f, n). under p f) (files m)),
      WalkDir = demoWalkDir,
      LookPath = (\<lambda>m name. lookPath name),
      EvalSymlinks = (\<lambda>m p. Some p),
      Output = (\<lambda>m name args. None),
      RemoveAll = demoRemoveAll,
      Run = demoRun\<rparr>"

definition demo :: "machine sys" where
  "demo = demoWith (\<lambda>name. None)"

definition cargoFiles :: machine where
  "cargoFiles =
     \<lparr>files = [(''/home/dev/.cargo/registry/index/a'', 700),
               (''/home/dev/.cargo/registry/cache/b'', 300),
               (''/home/dev/.cargo/git/c'', 24)],
      calls = []\<rparr>"

text \<open>Items to run the program on.\<close>

definition registryItem :: CleanableItem where
  "registryItem =
     \<lparr>Path = ''~/.cargo/registry'', Description = ''Cargo Registry'', Size = 1000,
      Command = [], Safe = True\<rparr>"

definition gitItem :: CleanableItem where
  "gitItem =
     \<lparr>Path = ''~/.cargo/git'', Description = ''Cargo Git Checkouts'', Size = 24,
      Command = [], Safe = True\<rparr>"

definition failingItem :: CleanableItem where
  "failingItem =
     \<lparr>Path = [], Description = ''Broken'', Size = 7, Command = ''false'', Safe = True\<rparr>"

definition bareItem :: CleanableItem where
  "bareItem = \<lparr>Path = [], Description = ''Nothing'', Size = 5, Command = [], Safe = True\<rparr>"

definition pipItem :: CleanableItem where
  "pipItem =
     \<lparr>Path = [], Description = ''Pip Cache'', Size = 9, Command = ''pip cache purge'',
      Safe = True\<rparr>"

text \<open>
  The item \<open>PHPProvider.GetCleanableItems\<close> builds (\<open>pipItem\<close> is the one of
  \<open>PythonProvider.GetCleanableItems\<close>), and a machine that holds both caches.
\<close>

definition composerItem :: CleanableItem where
  "composerItem =
     \<lparr>Path = [], Description = ''Composer Cache'', Size = 13,
      Command = ''composer clear-cache'', Safe = True\<rparr>"

definition cacheFiles :: machine where
  "cacheFiles =
     \<lparr>files = [(''/home/dev/Library/Caches/pip/http/a'', 9),
               (''/home/dev/.composer/cache/files/b'', 13)],
      calls = []\<rparr>"

definition blankItem :: CleanableItem where
  "blankItem = \<lparr>Path = [], Description = ''Blank'', Size = 0, Command = '' '', Safe = True\<rparr>"

text \<open>
  A machine with a Gradle cache and a Maven repository, and the Java provider on it:
  \<open>java\<close> is not on the search path, so its \<open>DetectInstalled\<close> returns that error,
  and no environment variable is set.
\<close>

definition javaFiles :: machine where
  "javaFiles =
     \<lparr>files = [(''/home/dev/.gradle/caches/x'', 11), (''/home/dev/.m2/repository/y'', 31)],
      calls = []\<rparr>"

definition javaOnDemo :: "machine LanguageProvider" where
  "javaOnDemo =
     \<lparr>Name = ''Java'',
      DetectInstalled = (\<lambda>w. Return ([], Some ''java not found in PATH'')),
      GetGlobalCacheUsage = JavaProvider_GetGlobalCacheUsage demo,
      GetEnvVars = (\<lambda>w. []),
      GetCleanableItems = JavaProvider_GetCleanableItems demo,
      Clean = JavaProvider_Clean demo\<rparr>"

text \<open>Three providers that are installed and measure nothing, to scan.\<close>

definition installed :: "string \<Rightarrow> string \<Rightarrow> machine LanguageProvider" where
  "installed name version =
     \<lparr>Name = name,
      DetectInstalled = (\<lambda>w. Return ([\<lparr>Version = version, Source = SourceUnknown,
         BinaryPath = ''/usr/bin/'' @ name, ManagerPath = []\<rparr>], None)),
      GetGlobalCacheUsage = (\<lambda>w. Return (Some \<lparr>Items = [], Total = 0\<rparr>, None)),
      GetEnvVars = (\<lambda>w. []),
      GetCleanableItems = (\<lambda>w. Return ([], None)),
      Clean = (\<lambda>items w. (Return (Some emptyResult, None), w))\<rparr>"

definition scanned :: "string \<Rightarrow> string \<Rightarrow> machine ScanResult" where
  "scanned name version =
     \<lparr>Provider = Some (installed name version),
      Installation = Some \<lparr>Version = version, Source = SourceUnknown,
         BinaryPath = ''/usr/bin/'' @ name, ManagerPath = []\<rparr>,
      DiskUsage = Some \<lparr>Items = [], Total = 0\<rparr>,
      Error = None\<rparr>"

text \<open>
  The demo machine with \<open>php\<close> on the search path, at a path that is under a
  \<open>/Cellar/php\<close> directory at the root, has a Homebrew marker and no \<open>/bin\<close>;
  and with \<open>php\<close> where Homebrew installs it.
\<close>

definition phpAtRootCellar :: "machine sys" where
  "phpAtRootCellar =
     demoWith (\<lambda>name. if name = ''php'' then Some ''/Cellar/php/opt/homebrew/php'' else None)"

definition phpAtHomebrew :: "machine sys" where
  "phpAtHomebrew =
     demoWith (\<lambda>name. if name = ''php''
        then Some ''/opt/homebrew/Cellar/php/8.2.0/bin/php'' else None)"

section \<open>The directory-size scanner on an absent path\<close>

text \<open>
  C8. For every path that does not exist, by the program's own test \<open>PathExists\<close> on
  the path with its home directory expanded, \<open>CalculateDirSize\<close> returns the size 0 and
  the error \<open>nil\<close>.
\<close>

theorem CalculateDirSize_absent:
  "\<not> PathExists os w (ExpandHome os path) \<Longrightarrow> CalculateDirSize os w path = (0, None)"
  by (simp add: CalculateDirSize_def)

theorem CalculateDirSize_absent_witness:
  "\<not> PathExists demo cargoFiles (ExpandHome demo ''~/.m2/repository'')
   \<and> CalculateDirSize demo cargoFiles ''~/.m2/repository'' = (0, None)"
proof -
  have absent: "\<not> PathExists demo cargoFiles (ExpandHome demo ''~/.m2/repository'')"
    by (simp add: PathExists_def ExpandHome_def HasPrefix_def demo_def demoWith_def
        cargoFiles_def under_def)
  from CalculateDirSize_absent [OF absent] absent show ?thesis by simp
qed

section \<open>Every clean loop is the tally of its actions\<close>

lemma tally_Nil: "tally [] r = r"
  by (simp add: tally_def succeeded_def failures_def)

lemma tally_ok: "tally ((item, None) # out) r = tally out (cleaned r item)"
  by (simp add: tally_def succeeded_def failures_def cleaned_def add.assoc)

lemma tally_err: "tally ((item, Some e) # out) r = tally out (failedToClean r item e)"
  by (simp add: tally_def succeeded_def failures_def failedToClean_def)

lemma loop_tally:
  assumes nil: "\<And>r w. L [] r w = (r, w)"
    and step: "\<And>item items r w. L (item # items) r w =
      (case act item w of
         (None, w') \<Rightarrow> L items (cleaned r item) w'
       | (Some e, w') \<Rightarrow> L items (failedToClean r item e) w')"
  shows "L items r w = (tally (outcomes act items w) r, leaves act items w)"
proof (induction items arbitrary: r w)
  case Nil
  show ?case by (simp add: nil tally_Nil)
next
  case (Cons item items)
  obtain err w' where act: "act item w = (err, w')"
    by (cases "act item w")
  show ?case
  proof (cases err)
    case None
    with act show ?thesis by (simp add: step Cons.IH tally_ok)
  next
    case (Some e)
    with act show ?thesis by (simp add: step Cons.IH tally_err)
  qed
qed

lemma CleanItems_loop_step:
  "CleanItems_loop os False (item # items) r w =
     (case actionOf Cleaner os item w of
        (None, w') \<Rightarrow> CleanItems_loop os False items (cleaned r item) w'
      | (Some e, w') \<Rightarrow> CleanItems_loop os False items (failedToClean r item e) w')"
  by (simp split: prod.splits option.splits)

lemma GoProvider_Clean_loop_step:
  "GoProvider_Clean_loop os (item # items) r w =
     (case actionOf Golang os item w of
        (None, w') \<Rightarrow> GoProvider_Clean_loop os items (cleaned r item) w'
      | (Some e, w') \<Rightarrow> GoProvider_Clean_loop os items (failedToClean r item e) w')"
  by (simp add: shell_def split: prod.splits option.splits)

lemma JavaProvider_Clean_loop_step:
  "JavaProvider_Clean_loop os (item # items) r w =
     (case actionOf Java os item w of
        (None, w') \<Rightarrow> JavaProvider_Clean_loop os items (cleaned r item) w'
      | (Some e, w') \<Rightarrow> JavaProvider_Clean_loop os items (failedToClean r item e) w')"
  by (simp add: Let_def split: prod.splits option.splits)

lemma PythonProvider_Clean_loop_step:
  "PythonProvider_Clean_loop os (item # items) r w =
     (case actionOf Python os item w of
        (None, w') \<Rightarrow> PythonProvider_Clean_loop os items (cleaned r item) w'
      | (Some e, w') \<Rightarrow> PythonProvider_Clean_loop os items (failedToClean r item e) w')"
  by (simp add: Let_def split: prod.splits option.splits)

lemma PHPProvider_Clean_loop_step:
  "PHPProvider_Clean_loop os (item # items) r w =
     (case actionOf PHP os item w of
        (None, w') \<Rightarrow> PHPProvider_Clean_loop os items (cleaned r item) w'
      | (Some e, w') \<Rightarrow> PHPProvider_Clean_loop os items (failedToClean r item e) w')"
  by (simp split: prod.splits option.splits)

lemma RustProvider_Clean_loop_step:
  "RustProvider_Clean_loop os (item # items) r w =
     (case actionOf Rust os item w of
        (None, w') \<Rightarrow> RustProvider_Clean_loop os items (cleaned r item) w'
      | (Some e, w') \<Rightarrow> RustProvider_Clean_loop os items (failedToClean r item e) w')"
  by (simp add: shell_def Let_def split: prod.splits option.splits)

lemma CleanItems_tally:
  "CleanItems os items False w =
     ((tally (outcomes (actionOf Cleaner os) items w) emptyResult, None),
      leaves (actionOf Cleaner os) items w)"
proof -
  have "CleanItems_loop os False items r w =
     (tally (outcomes (actionOf Cleaner os) items w) r, leaves (actionOf Cleaner os) items w)" for r
    by (rule loop_tally) (simp, rule CleanItems_loop_step)
  then show ?thesis by (simp add: CleanItems_def)
qed

lemma GoProvider_Clean_tally:
  "GoProvider_Clean os items w =
     (Return (Some (tally (outcomes (actionOf Golang os) items w) emptyResult), None),
      leaves (actionOf Golang os) items w)"
proof -
  have "GoProvider_Clean_loop os items r w =
     (tally (outcomes (actionOf Golang os) items w) r, leaves (actionOf Golang os) items w)" for r
    by (rule loop_tally) (simp, rule GoProvider_Clean_loop_step)
  then show ?thesis by (simp add: GoProvider_Clean_def)
qed

lemma JavaProvider_Clean_tally:
  "JavaProvider_Clean os items w =
     (Return (Some (tally (outcomes (actionOf Java os) items w) emptyResult), None),
      leaves (actionOf Java os) items w)"
proof -
  have "JavaProvider_Clean_loop os items r w =
     (tally (outcomes (actionOf Java os) items w) r, leaves (actionOf Java os) items w)" for r
    by (rule loop_tally) (simp, rule JavaProvider_Clean_loop_step)
  then show ?thesis by (simp add: JavaProvider_Clean_def)
qed

lemma PythonProvider_Clean_tally:
  "PythonProvider_Clean os items w =
     (Return (Some (tally (outcomes (actionOf Python os) items w) emptyResult), None),
      leaves (actionOf Python os) items w)"
proof -
  have "PythonProvider_Clean_loop os items r w =
     (tally (outcomes (actionOf Python os) items w) r, leaves (actionOf Python os) items w)" for r
    by (rule loop_tally) (simp, rule PythonProvider_Clean_loop_step)
  then show ?thesis by (simp add: PythonProvider_Clean_def)
qed

lemma PHPProvider_Clean_tally:
  "PHPProvider_Clean os items w =
     (Return (Some (tally (outcomes (actionOf PHP os) items w) emptyResult), None),
      leaves (actionOf PHP os) items w)"
proof -
  have "PHPProvider_Clean_loop os items r w =
     (tally (outcomes (actionOf PHP os) items w) r, leaves (actionOf PHP os) items w)" for r
    by (rule loop_tally) (simp, rule PHPProvider_Clean_loop_step)
  then show ?thesis by (simp add: PHPProvider_Clean_def)
qed

lemma RustProvider_Clean_tally:
  "RustProvider_Clean os items w =
     (Return (Some (tally (outcomes (actionOf Rust os) items w) emptyResult), None),
      leaves (actionOf Rust os) items w)"
proof -
  have "RustProvider_Clean_loop os items r w =
     (tally (outcomes (actionOf Rust os) items w) r, leaves (actionOf Rust os) items w)" for r
    by (rule loop_tally) (simp, rule RustProvider_Clean_loop_step)
  then show ?thesis by (simp add: RustProvider_Clean_def)
qed

lemma NodeProvider_Clean_loop_tally:
  "\<forall>item \<in> set items. \<not> blankCommand item \<Longrightarrow>
   NodeProvider_Clean_loop os items r w =
     (Return (tally (outcomes (actionOf NodeJS os) items w) r), leaves (actionOf NodeJS os) items w)"
proof (induction items arbitrary: r w)
  case Nil
  show ?case by (simp add: tally_Nil)
next
  case (Cons item items)
  from Cons.prems have rest: "\<forall>item \<in> set items. \<not> blankCommand item"
    by simp
  note IH = Cons.IH [OF rest]
  show ?case
  proof (cases "Command item = []")
    case True
    then show ?thesis by (simp add: IH tally_ok)
  next
    case False
    with Cons.prems have fields: "Fields (Command item) \<noteq> []"
      by (simp add: blankCommand_def)
    obtain err out w' where
      run: "Run os (hd (Fields (Command item))) (tl (Fields (Command item))) w = ((err, out), w')"
      by (metis prod.exhaust)
    show ?thesis
    proof (cases err)
      case None
      with False fields run show ?thesis by (simp add: IH direct_def tally_ok)
    next
      case (Some e)
      with False fields run show ?thesis by (simp add: IH direct_def tally_err)
    qed
  qed
qed

lemma NodeProvider_Clean_tally:
  "\<forall>item \<in> set items. \<not> blankCommand item \<Longrightarrow>
   NodeProvider_Clean os items w =
     (Return (Some (tally (outcomes (actionOf NodeJS os) items w) emptyResult), None),
      leaves (actionOf NodeJS os) items w)"
  by (simp add: NodeProvider_Clean_def NodeProvider_Clean_loop_tally)

lemma cleanOf_tally:
  assumes "impl = NodeJS \<longrightarrow> (\<forall>item \<in> set items. \<not> blankCommand item)"
  shows "cleanOf impl os items w =
     (Return (Some (tally (outcomes (actionOf impl os) items w) emptyResult), None),
      leaves (actionOf impl os) items w)"
proof (cases impl)
  case Cleaner
  then show ?thesis by (simp add: CleanItems_tally)
next
  case Golang
  then show ?thesis by (simp only: cleanOf.simps GoProvider_Clean_tally)
next
  case NodeJS
  with assms show ?thesis by (simp add: NodeProvider_Clean_tally)
next
  case Java
  then show ?thesis by (simp only: cleanOf.simps JavaProvider_Clean_tally)
next
  case Python
  then show ?thesis by (simp only: cleanOf.simps PythonProvider_Clean_tally)
next
  case PHP
  then show ?thesis by (simp only: cleanOf.simps PHPProvider_Clean_tally)
next
  case Rust
  then show ?thesis by (simp only: cleanOf.simps RustProvider_Clean_tally)
qed

lemma length_outcomes: "length (outcomes act items w) = length items"
proof (induction items arbitrary: w)
  case Nil
  show ?case by simp
next
  case (Cons item items)
  then show ?case by (cases "act item w") simp
qed

lemma length_succeeded_failures: "length (succeeded out) + length (failures out) = length out"
proof (induction out)
  case Nil
  show ?case by (simp add: succeeded_def failures_def)
next
  case (Cons x out)
  obtain item err where x: "x = (item, err)" by (cases x)
  with Cons show ?case by (cases err) (simp_all add: succeeded_def failures_def)
qed

lemma outcomes_no_effect:
  "\<forall>item \<in> set items. act item w = (None, w) \<Longrightarrow>
   outcomes act items w = map (\<lambda>item. (item, None)) items \<and> leaves act items w = w"
  by (induction items) simp_all

lemma succeeded_all: "succeeded (map (\<lambda>item. (item, None)) items) = items"
  by (induction items) (simp_all add: succeeded_def)

lemma failures_none: "failures (map (\<lambda>item. (item, None)) items) = []"
  by (induction items) (simp_all add: failures_def)

lemma Fields_blank: "Fields '' '' = []"
  by code_simp

section \<open>Clean: accounting, errors and what drives an item\<close>

text \<open>
  C10. \<open>CleanItems\<close>, not in dry-run mode, accounts for every item exactly once: the
  items cleaned and the errors add up to the number of items; the items cleaned are
  those whose action ended without an error, the space reclaimed is the sum (in
  \<open>int64\<close>) of their sizes, and the errors are those of the other items, in order. An
  item with neither a command nor a path is counted as cleaned and nothing is done to
  the machine.
\<close>

theorem CleanItems_accounts_for_every_item:
  assumes "CleanItems os items False w = ((result, err), w')"
  shows "ItemsCleaned result + length (Errors result) = length items
    \<and> ItemsCleaned result = length (succeeded (outcomes (actionOf Cleaner os) items w))
    \<and> SpaceReclaimed result = sum_list (map Size (succeeded (outcomes (actionOf Cleaner os) items w)))
    \<and> Errors result = failures (outcomes (actionOf Cleaner os) items w)
    \<and> (Command item = [] \<and> Path item = [] \<longrightarrow>
         CleanItems os [item] False w =
           ((\<lparr>ItemsCleaned = 1, SpaceReclaimed = Size item, Errors = []\<rparr>, None), w))"
proof -
  let ?out = "outcomes (actionOf Cleaner os) items w"
  from assms have result: "result = tally ?out emptyResult"
    by (simp add: CleanItems_tally)
  have "length (succeeded ?out) + length (failures ?out) = length items"
    by (simp add: length_succeeded_failures length_outcomes)
  with result have total: "ItemsCleaned result + length (Errors result) = length items"
    by (simp add: tally_def emptyResult_def)
  have bare: "Command item = [] \<and> Path item = [] \<longrightarrow>
      CleanItems os [item] False w =
        ((\<lparr>ItemsCleaned = 1, SpaceReclaimed = Size item, Errors = []\<rparr>, None), w)"
    by (simp add: CleanItems_def emptyResult_def cleaned_def)
  from result total bare show ?thesis
    by (simp add: tally_def emptyResult_def)
qed

theorem CleanItems_accounts_for_every_item_witness:
  "ItemsCleaned \<lparr>ItemsCleaned = 2, SpaceReclaimed = 1005,
        Errors = [''failed to clean Broken: command failed: exit status 1 (output: )'']\<rparr>
     + length (Errors \<lparr>ItemsCleaned = 2, SpaceReclaimed = 1005,
        Errors = [''failed to clean Broken: command failed: exit status 1 (output: )'']\<rparr>)
     = length [registryItem, failingItem, bareItem]
   \<and> ItemsCleaned \<lparr>ItemsCleaned = 2, SpaceReclaimed = 1005,
        Errors = [''failed to clean Broken: command failed: exit status 1 (output: )'']\<rparr>
     = length (succeeded (outcomes (actionOf Cleaner demo) [registryItem, failingItem, bareItem] cargoFiles))
   \<and> SpaceReclaimed \<lparr>ItemsCleaned = 2, SpaceReclaimed = 1005,
        Errors = [''failed to clean Broken: command failed: exit status 1 (output: )'']\<rparr>
     = sum_list (map Size (succeeded (outcomes (actionOf Cleaner demo) [registryItem, failingItem, bareItem] cargoFiles)))
   \<and> Errors \<lparr>ItemsCleaned = 2, SpaceReclaimed = 1005,
        Errors = [''failed to clean Broken: command failed: exit status 1 (output: )'']\<rparr>
     = failures (outcomes (actionOf Cleaner demo) [registryItem, failingItem, bareItem] cargoFiles)
   \<and> CleanItems demo [bareItem] False cargoFiles =
       ((\<lparr>ItemsCleaned = 1, SpaceReclaimed = Size bareItem, Errors = []\<rparr>, None), cargoFiles)"
proof -
  have run: "CleanItems demo [registryItem, failingItem, bareItem] False cargoFiles =
     ((\<lparr>ItemsCleaned = 2, SpaceReclaimed = 1005,
        Errors = [''failed to clean Broken: command failed: exit status 1 (output: )'']\<rparr>, None),
      \<lparr>files = [(''/home/dev/.cargo/git/c'', 24)],
       calls = [RemoveAllCall ''/home/dev/.cargo/registry'', RunCall ''false'' []]\<rparr>)"
    by code_simp
  have bare: "Command bareItem = [] \<and> Path bareItem = []"
    by (simp add: bareItem_def)
  from CleanItems_accounts_for_every_item [OF run, of bareItem] bare
  show ?thesis by blast
qed

text \<open>
  C3. The claim holds of \<open>CleanItems\<close> and of five providers (\<open>cleanOf_tally\<close>:
  each returns its result with the error \<open>nil\<close>, a failing item adding one error and
  the loop going on), but \<open>NodeProvider.Clean\<close> indexes \<open>parts[0]\<close> without checking
  that the command has a field: on an item whose command is a single space it panics
  and returns no result.
\<close>

theorem NodeProvider_Clean_panics_on_blank_command:
  "NodeProvider_Clean os [blankItem] w = (Panic ''index out of range [0] with length 0'', w)"
  by (simp add: NodeProvider_Clean_def blankItem_def Fields_blank)

text \<open>
  C4, as stated, fails: on the demo machine the second run of \<open>CleanItems\<close> on the same
  two items finds both paths absent, deletes nothing, reports no error, and counts both
  items again, with their recorded sizes.
\<close>

theorem clean_twice_counterexample:
  "CleanItems demo [registryItem, gitItem] False cargoFiles =
     ((\<lparr>ItemsCleaned = 2, SpaceReclaimed = 1024, Errors = []\<rparr>, None),
      \<lparr>files = [],
       calls = [RemoveAllCall ''/home/dev/.cargo/registry'', RemoveAllCall ''/home/dev/.cargo/git'']\<rparr>)
   \<and> CleanItems demo [registryItem, gitItem] False
       \<lparr>files = [],
        calls = [RemoveAllCall ''/home/dev/.cargo/registry'', RemoveAllCall ''/home/dev/.cargo/git'']\<rparr> =
     ((\<lparr>ItemsCleaned = 2, SpaceReclaimed = 1024, Errors = []\<rparr>, None),
      \<lparr>files = [],
       calls = [RemoveAllCall ''/home/dev/.cargo/registry'', RemoveAllCall ''/home/dev/.cargo/git'']\<rparr>)
   \<and> \<not> (ItemsCleaned (fst (fst (CleanItems demo [registryItem, gitItem] False
       \<lparr>files = [],
        calls = [RemoveAllCall ''/home/dev/.cargo/registry'', RemoveAllCall ''/home/dev/.cargo/git'']\<rparr>))) = 0)"
  by code_simp

text \<open>
  C4, amended. When \<open>CleanItems\<close> is run again on the same items, which carry no command
  and whose paths are absent from the machine the first run left, the second run
  changes nothing and reports no error, because an absent path is a success; it counts
  every item: \<open>ItemsCleaned\<close> is the number of items and \<open>SpaceReclaimed\<close> the sum of
  their sizes.
\<close>

theorem clean_again_counts_absent_paths:
  assumes first: "CleanItems os items False w = (first, w1)"
    and absent: "\<forall>item \<in> set items.
       Command item = [] \<and> \<not> PathExists os w1 (ExpandHome os (Path item))"
  shows "CleanItems os items False w1 =
     ((\<lparr>ItemsCleaned = length items, SpaceReclaimed = sum_list (map Size items), Errors = []\<rparr>,
       None), w1)"
proof -
  from absent have "\<forall>item \<in> set items. actionOf Cleaner os item w1 = (None, w1)"
    by (simp add: CleanDirectory_def)
  then have "outcomes (actionOf Cleaner os) items w1 = map (\<lambda>item. (item, None)) items
      \<and> leaves (actionOf Cleaner os) items w1 = w1"
    by (rule outcomes_no_effect)
  then show ?thesis
    by (simp add: CleanItems_tally tally_def emptyResult_def succeeded_all failures_none)
qed

theorem clean_again_counts_absent_paths_witness:
  "CleanItems demo [registryItem, gitItem] False
       \<lparr>files = [],
        calls = [RemoveAllCall ''/home/dev/.cargo/registry'', RemoveAllCall ''/home/dev/.cargo/git'']\<rparr> =
     ((\<lparr>ItemsCleaned = 2, SpaceReclaimed = 1024, Errors = []\<rparr>, None),
      \<lparr>files = [],
       calls = [RemoveAllCall ''/home/dev/.cargo/registry'', RemoveAllCall ''/home/dev/.cargo/git'']\<rparr>)"
proof -
  let ?m1 = "\<lparr>files = [],
     calls = [RemoveAllCall ''/home/dev/.cargo/registry'', RemoveAllCall ''/home/dev/.cargo/git'']\<rparr>"
  have first: "CleanItems demo [registryItem, gitItem] False cargoFiles =
     ((\<lparr>ItemsCleaned = 2, SpaceReclaimed = 1024, Errors = []\<rparr>, None), ?m1)"
    by code_simp
  have absent: "\<forall>item \<in> set [registryItem, gitItem].
       Command item = [] \<and> \<not> PathExists demo ?m1 (ExpandHome demo (Path item))"
    by (simp add: registryItem_def gitItem_def PathExists_def ExpandHome_def HasPrefix_def
        demo_def demoWith_def)
  from clean_again_counts_absent_paths [OF first absent]
  show ?thesis by (simp add: registryItem_def gitItem_def)
qed

text \<open>
  C5. The claim is what \<open>CleanItems\<close>, \<open>GoProvider.Clean\<close> and \<open>NodeProvider.Clean\<close>
  do with an item that carries a command (\<open>RustProvider.Clean\<close> when it has no path), but
  \<open>PythonProvider.Clean\<close> and \<open>PHPProvider.Clean\<close> never start the command. On the
  items their own \<open>GetCleanableItems\<close> build (a command, no path), on a machine that
  holds both caches, \<open>PythonProvider.Clean\<close> calls \<open>os.RemoveAll\<close> on the empty path,
  which removes nothing, and \<open>PHPProvider.Clean\<close> does nothing at all; no subprocess is
  started, both caches are still there, and each item is counted as cleaned with its
  size.
\<close>

theorem python_and_php_clean_never_run_the_command:
  "PythonProvider_Clean demo [pipItem] cacheFiles =
     (Return (Some \<lparr>ItemsCleaned = 1, SpaceReclaimed = 9, Errors = []\<rparr>, None),
      \<lparr>files = [(''/home/dev/Library/Caches/pip/http/a'', 9),
                (''/home/dev/.composer/cache/files/b'', 13)],
       calls = [RemoveAllCall []]\<rparr>)
   \<and> PHPProvider_Clean demo [composerItem] cacheFiles =
     (Return (Some \<lparr>ItemsCleaned = 1, SpaceReclaimed = 13, Errors = []\<rparr>, None),
      \<lparr>files = [(''/home/dev/Library/Caches/pip/http/a'', 9),
                (''/home/dev/.composer/cache/files/b'', 13)],
       calls = []\<rparr>)"
  by code_simp

section \<open>The clean orchestrator: dry run and confirmation\<close>

lemma cleanProvider_dry:
  assumes "dryRun fl"
  shows "snd (cleanProvider fl stdin provider w) = w"
    and "CallClean its \<notin> set (snd (fst (cleanProvider fl stdin provider w)))"
    and "cleanProvider fl stdin (provider\<lparr>Clean := other\<rparr>) w = cleanProvider fl stdin provider w"
    and "GetCleanableItems provider w = Return (items, None) \<Longrightarrow> items \<noteq> [] \<Longrightarrow>
       fst (cleanProvider fl stdin provider w) = (Return None, [PrintPreview (Name provider) items])"
  using assms
  by (simp_all add: cleanProvider_def Let_def split: go.splits prod.splits option.splits)











text \<open>
  C1. With the dry-run flag set, for every provider, whatever its items, the answer at
  the prompt and the other flags, \<open>cleanProvider\<close> leaves the machine as it found it and
  does not call the provider's \<open>Clean\<close>: no step is that call, and replacing \<open>Clean\<close>
  by any other function changes nothing. When the provider lists items (at least one)
  it prints the preview, as its only step, and returns \<open>nil\<close>.
\<close>

theorem dry_run_never_cleans:
  assumes "dryRun fl"
  shows "snd (cleanProvider fl stdin provider w) = w
    \<and> (\<forall>its. CallClean its \<notin> set (snd (fst (cleanProvider fl stdin provider w))))
    \<and> (\<forall>other. cleanProvider fl stdin (provider\<lparr>Clean := other\<rparr>) w
          = cleanProvider fl stdin provider w)
    \<and> (GetCleanableItems provider w = Return (items, None) \<and> items \<noteq> [] \<longrightarrow>
         fst (cleanProvider fl stdin provider w)
           = (Return None, [PrintPreview (Name provider) items]))"
proof (intro conjI allI impI)
  show "snd (cleanProvider fl stdin provider w) = w"
    using assms by (rule cleanProvider_dry(1))
  show "CallClean its \<notin> set (snd (fst (cleanProvider fl stdin provider w)))" for its
    using assms by (rule cleanProvider_dry(2))
  show "cleanProvider fl stdin (provider\<lparr>Clean := other\<rparr>) w
      = cleanProvider fl stdin provider w" for other
    using assms by (rule cleanProvider_dry(3))
  assume "GetCleanableItems provider w = Return (items, None) \<and> items \<noteq> []"
  then have "GetCleanableItems provider w = Return (items, None)" and "items \<noteq> []"
    by simp_all
  with assms show "fst (cleanProvider fl stdin provider w)
      = (Return None, [PrintPreview (Name provider) items])"
    by (rule cleanProvider_dry(4))
qed

lemma javaOnDemo_lists:
  "GetCleanableItems javaOnDemo javaFiles =
     Return ([\<lparr>Path = ''~/.gradle/caches'', Description = ''Gradle Cache'', Size = 11,
          Command = [], Safe = True\<rparr>,
         \<lparr>Path = ''~/.m2/repository'', Description = ''Maven Repository'', Size = 31,
          Command = [], Safe = False\<rparr>], None)"
  by code_simp

lemma javaOnDemo_Name: "Name javaOnDemo = ''Java''"
  by (simp add: javaOnDemo_def)

theorem dry_run_never_cleans_witness:
  "snd (cleanProvider \<lparr>dryRun = True, force = True, verbose = False\<rparr> (ReadLine ''y'')
       javaOnDemo javaFiles) = javaFiles
   \<and> fst (cleanProvider \<lparr>dryRun = True, force = True, verbose = False\<rparr> (ReadLine ''y'')
       javaOnDemo javaFiles) =
     (Return None,
      [PrintPreview ''Java''
        [\<lparr>Path = ''~/.gradle/caches'', Description = ''Gradle Cache'', Size = 11,
          Command = [], Safe = True\<rparr>,
         \<lparr>Path = ''~/.m2/repository'', Description = ''Maven Repository'', Size = 31,
          Command = [], Safe = False\<rparr>]])"
proof -
  let ?fl = "\<lparr>dryRun = True, force = True, verbose = False\<rparr>"
  let ?items = "[\<lparr>Path = ''~/.gradle/caches'', Description = ''Gradle Cache'', Size = 11,
          Command = [], Safe = True\<rparr>,
         \<lparr>Path = ''~/.m2/repository'', Description = ''Maven Repository'', Size = 31,
          Command = [], Safe = False\<rparr>]"
  have dry: "dryRun ?fl" by simp
  have "?items \<noteq> []" by simp
  with javaOnDemo_lists
  have listed: "GetCleanableItems javaOnDemo javaFiles = Return (?items, None) \<and> ?items \<noteq> []"
    by (rule conjI)
  note all = dry_run_never_cleans [OF dry, where stdin = "ReadLine ''y''"
      and provider = javaOnDemo and w = javaFiles and items = ?items]
  from all have unchanged: "snd (cleanProvider ?fl (ReadLine ''y'') javaOnDemo javaFiles) = javaFiles"
    by (rule conjunct1)
  from all [THEN conjunct2, THEN conjunct2, THEN conjunct2] listed
  have "fst (cleanProvider ?fl (ReadLine ''y'') javaOnDemo javaFiles)
      = (Return None, [PrintPreview (Name javaOnDemo) ?items])"
    by (rule mp)
  then have preview: "fst (cleanProvider ?fl (ReadLine ''y'') javaOnDemo javaFiles)
      = (Return None, [PrintPreview ''Java'' ?items])"
    by (simp only: javaOnDemo_Name)
  from unchanged preview show ?thesis by (rule conjI)
qed



section \<open>The scan orchestrator keeps the order of its providers\<close>

lemma completed_stores:
  assumes "\<forall>i \<in> set order. i < length rs0 \<and> scanProvider (providers ! i) w = Return (results ! i)"
  shows "completed providers w order rs0 =
     Return (map (\<lambda>i. if i \<in> set order then results ! i else rs0 ! i) [0..<length rs0])"
  using assms
proof (induction order arbitrary: rs0)
  case Nil
  show ?case by (simp add: map_nth)
next
  case (Cons k order)
  from Cons.prems have k: "k < length rs0" "scanProvider (providers ! k) w = Return (results ! k)"
    by simp_all
  from Cons.prems have rest:
    "\<forall>i \<in> set order. i < length (rs0[k := results ! k])
        \<and> scanProvider (providers ! i) w = Return (results ! i)"
    by simp
  have "completed providers w (k # order) rs0 = completed providers w order (rs0[k := results ! k])"
    using k by simp
  also have "\<dots> = Return (map (\<lambda>i. if i \<in> set order then results ! i
        else rs0[k := results ! k] ! i) [0..<length (rs0[k := results ! k])])"
    by (rule Cons.IH [OF rest])
  also have "map (\<lambda>i. if i \<in> set order then results ! i
        else rs0[k := results ! k] ! i) [0..<length (rs0[k := results ! k])] =
      map (\<lambda>i. if i \<in> set (k # order) then results ! i else rs0 ! i) [0..<length rs0]"
    using k by (auto simp: nth_list_update)
  finally show ?case .
qed

lemma completed_Return:
  "completed providers w order rs0 = Return rs \<Longrightarrow>
   \<forall>i \<in> set order. \<exists>r. scanProvider (providers ! i) w = Return r"
proof (induction order arbitrary: rs0)
  case Nil
  show ?case by simp
next
  case (Cons k order)
  then show ?case by (auto split: go.splits)
qed

lemma completionOrder_set: "completionOrder n order \<Longrightarrow> set order = {0..<n}"
  by (metis completionOrder_def mset_eq_setD set_upt)

lemma scanProviders_in_order:
  assumes perm: "completionOrder (length providers) order"
    and scans: "list_all2 (\<lambda>p r. scanProvider p w = Return r) providers results"
  shows "scanProviders providers order w = Return results"
proof -
  let ?n = "length providers"
  from scans have len: "length results = ?n"
    by (simp add: list_all2_lengthD)
  from perm have order: "set order = {0..<?n}"
    by (rule completionOrder_set)
  from scans have each: "\<forall>i < ?n. scanProvider (providers ! i) w = Return (results ! i)"
    by (simp add: list_all2_conv_all_nth)
  with order have
    "\<forall>i \<in> set order. i < length (replicate ?n (zeroScanResult :: 'a ScanResult))
        \<and> scanProvider (providers ! i) w = Return (results ! i)"
    by simp
  then have "completed providers w order (replicate ?n zeroScanResult) =
      Return (map (\<lambda>i. if i \<in> set order then results ! i else replicate ?n zeroScanResult ! i)
        [0..<length (replicate ?n (zeroScanResult :: 'a ScanResult))])"
    by (rule completed_stores)
  also have "map (\<lambda>i. if i \<in> set order then results ! i else replicate ?n zeroScanResult ! i)
        [0..<length (replicate ?n (zeroScanResult :: 'a ScanResult))] = map (\<lambda>i. results ! i) [0..<?n]"
    using order by simp
  also have "\<dots> = results"
    using len by (metis map_nth)
  finally show ?thesis by (simp add: scanProviders_def)
qed

lemma scanProviders_Return:
  assumes perm: "completionOrder (length providers) order"
    and ret: "scanProviders providers order w = Return results"
  shows "list_all2 (\<lambda>p r. scanProvider p w = Return r) providers results"
proof -
  let ?n = "length providers"
  from perm have order: "set order = {0..<?n}"
    by (rule completionOrder_set)
  from ret have "\<forall>i \<in> set order. \<exists>r. scanProvider (providers ! i) w = Return r"
    unfolding scanProviders_def by (rule completed_Return)
  with order have "\<forall>i < ?n. \<exists>r. scanProvider (providers ! i) w = Return r"
    by simp
  then obtain f where f: "\<forall>i < ?n. scanProvider (providers ! i) w = Return (f i)"
    by metis
  then have "list_all2 (\<lambda>p r. scanProvider p w = Return r) providers (map f [0..<?n])"
    by (simp add: list_all2_conv_all_nth)
  moreover from this have "scanProviders providers order w = Return (map f [0..<?n])"
    by (rule scanProviders_in_order [OF perm])
  ultimately show ?thesis using ret by simp
qed

lemma scanProviders_Panic:
  assumes perm: "completionOrder (length providers) order"
    and panic: "p \<in> set providers" "scanProvider p w = Panic msg"
  shows "\<exists>msg'. scanProviders providers order w = Panic msg'"
proof (cases "scanProviders providers order w")
  case (Panic msg')
  then show ?thesis by blast
next
  case (Return results)
  with perm have "list_all2 (\<lambda>p r. scanProvider p w = Return r) providers results"
    by (rule scanProviders_Return)
  with panic have False
    by (auto simp: list_all2_conv_all_nth in_set_conv_nth)
  then show ?thesis ..
qed

text \<open>
  C9. For every sequence of providers and every order in which their goroutines
  complete, \<open>scanProviders\<close> returns the results of the providers in the order of the
  providers: given the result of each provider's scan, in input order, it returns that
  list; whatever it returns has one slot per provider, slot \<open>i\<close> holding the scan of
  provider \<open>i\<close>; and it returns unless a scan panics.
\<close>

theorem scanProviders_keeps_input_order:
  assumes "completionOrder (length providers) order"
  shows "(list_all2 (\<lambda>p r. scanProvider p w = Return r) providers results \<longrightarrow>
            scanProviders providers order w = Return results)
    \<and> (scanProviders providers order w = Return results \<longrightarrow>
          length results = length providers
          \<and> (\<forall>i < length providers. scanProvider (providers ! i) w = Return (results ! i)))
    \<and> ((\<exists>msg. scanProviders providers order w = Panic msg) \<longrightarrow>
          (\<exists>p \<in> set providers. \<exists>msg. scanProvider p w = Panic msg))"
proof -
  have in_order: "list_all2 (\<lambda>p r. scanProvider p w = Return r) providers results \<longrightarrow>
      scanProviders providers order w = Return results"
    using scanProviders_in_order [OF assms] by blast
  have slots: "scanProviders providers order w = Return results \<longrightarrow>
      length results = length providers
      \<and> (\<forall>i < length providers. scanProvider (providers ! i) w = Return (results ! i))"
    using scanProviders_Return [OF assms] by (auto simp: list_all2_conv_all_nth)
  have panics: "(\<exists>msg. scanProviders providers order w = Panic msg) \<longrightarrow>
      (\<exists>p \<in> set providers. \<exists>msg. scanProvider p w = Panic msg)"
  proof
    assume "\<exists>msg. scanProviders providers order w = Panic msg"
    then obtain msg where panic: "scanProviders providers order w = Panic msg" ..
    show "\<exists>p \<in> set providers. \<exists>msg. scanProvider p w = Panic msg"
    proof (rule ccontr)
      assume "\<not> (\<exists>p \<in> set providers. \<exists>msg. scanProvider p w = Panic msg)"
      then have "\<forall>p \<in> set providers. \<exists>r. scanProvider p w = Return r"
        by (metis go.exhaust)
      then have "\<forall>i < length providers. \<exists>r. scanProvider (providers ! i) w = Return r"
        by simp
      then obtain f where "\<forall>i < length providers. scanProvider (providers ! i) w = Return (f i)"
        by metis
      then have "list_all2 (\<lambda>p r. scanProvider p w = Return r) providers
          (map f [0..<length providers])"
        by (simp add: list_all2_conv_all_nth)
      then have "scanProviders providers order w = Return (map f [0..<length providers])"
        by (rule scanProviders_in_order [OF assms])
      with panic show False by simp
    qed
  qed
  from in_order slots panics show ?thesis by blast
qed

theorem scanProviders_keeps_input_order_witness:
  "scanProviders [installed ''A'' ''1'', installed ''B'' ''2'', installed ''C'' ''3''] [1, 0, 2]
       cargoFiles =
     Return [scanned ''A'' ''1'', scanned ''B'' ''2'', scanned ''C'' ''3'']"
proof -
  let ?providers = "[installed ''A'' ''1'', installed ''B'' ''2'', installed ''C'' ''3'']"
  let ?results = "[scanned ''A'' ''1'', scanned ''B'' ''2'', scanned ''C'' ''3'']"
  have order: "completionOrder (length ?providers) [1, 0, 2]"
    by (simp add: completionOrder_def upt_rec)
  have scan: "scanProvider (installed name version) cargoFiles = Return (scanned name version)"
    for name version
    by (simp add: scanProvider_def installed_def scanned_def zeroScanResult_def)
  then have "list_all2 (\<lambda>p r. scanProvider p cargoFiles = Return r) ?providers ?results"
    by simp
  with scanProviders_keeps_input_order [OF order, of cargoFiles ?results]
  show ?thesis by blast
qed

section \<open>The source classifiers are first-match rule lists\<close>

lemma classify_no_match:
  "\<forall>r \<in> set rules. \<not> fst r path \<Longrightarrow> classify rules path = SourceUnknown"
  by (induction rules) auto

lemma classify_first_match:
  "i < length rules \<Longrightarrow> fst (rules ! i) path \<Longrightarrow> \<forall>j < i. \<not> fst (rules ! j) path \<Longrightarrow>
   classify rules path = snd (rules ! i)"
proof (induction rules arbitrary: i)
  case Nil
  then show ?case by simp
next
  case (Cons r rules)
  obtain matches source where r: "r = (matches, source)" by (cases r)
  show ?case
  proof (cases i)
    case 0
    with Cons.prems r show ?thesis by simp
  next
    case (Suc k)
    with Cons.prems have "\<not> fst ((r # rules) ! 0) path" by blast
    with r have no: "\<not> matches path" by simp
    from Suc Cons.prems have "k < length rules" "fst (rules ! k) path"
      "\<forall>j < k. \<not> fst (rules ! j) path"
      by auto
    then have "classify rules path = snd (rules ! k)" by (rule Cons.IH)
    with no r Suc show ?thesis by simp
  qed
qed

lemma determineSource_classify:
  "GoProvider_determineSource path = classify GoRules path"
  "NodeProvider_determineSource path = classify NodeRules path"
  "JavaProvider_determineSource os path = classify (JavaRules (Getenv os ''JAVA_HOME'')) path"
  "PythonProvider_determineSource path = classify PythonRules path"
  "PHPProvider_determineSource path = classify PHPRules path"
  "RustProvider_determineSource path = classify RustRules path"
  by (simp_all add: GoProvider_determineSource_def NodeProvider_determineSource_def
      JavaProvider_determineSource_def PythonProvider_determineSource_def
      PHPProvider_determineSource_def RustProvider_determineSource_def
      GoRules_def NodeRules_def JavaRules_def PythonRules_def PHPRules_def RustRules_def
      homebrewRule_def Let_def)

lemma manager_before_homebrew:
  "Contains path ''.goenv'' \<Longrightarrow> GoProvider_determineSource path = SourceVersionManager"
  "Contains path ''.nvm'' \<Longrightarrow> NodeProvider_determineSource path = SourceVersionManager"
  "Contains path ''.sdkman'' \<Longrightarrow> JavaProvider_determineSource os path = SourceVersionManager"
  "Contains path ''.pyenv'' \<Longrightarrow> PythonProvider_determineSource path = SourceVersionManager"
  "Contains path ''.phpenv'' \<Longrightarrow> PHPProvider_determineSource path = SourceVersionManager"
  "Contains path ''.cargo/bin'' \<Longrightarrow> RustProvider_determineSource path = SourceVersionManager"
  by (simp_all add: GoProvider_determineSource_def NodeProvider_determineSource_def
      JavaProvider_determineSource_def PythonProvider_determineSource_def
      PHPProvider_determineSource_def RustProvider_determineSource_def)

lemma goenv_under_homebrew:
  "Contains ''/opt/homebrew/opt/.goenv/versions/1.21.3/bin/go'' ''.goenv''
   \<and> (Contains ''/opt/homebrew/opt/.goenv/versions/1.21.3/bin/go'' ''/opt/homebrew''
      \<or> Contains ''/opt/homebrew/opt/.goenv/versions/1.21.3/bin/go'' ''/usr/local/Cellar'')"
  by code_simp

lemma snap_matches_no_rule: "\<forall>r \<in> set GoRules. \<not> fst r ''/snap/bin/go''"
  by code_simp

text \<open>
  C7. The \<open>determineSource\<close> of each provider is the first-match evaluation of its
  ordered rule list: in any rule list the first rule whose predicate holds gives the
  source, whatever later rules match, and a path no rule matches is \<open>Unknown\<close>. So a
  path with a version-manager marker and a Homebrew marker is a version manager's, for
  every provider. The result is a function of the path alone, and for Java of the path
  and the value of \<open>JAVA_HOME\<close>.
\<close>

theorem determineSource_first_match_wins:
  "GoProvider_determineSource path = classify GoRules path
   \<and> NodeProvider_determineSource path = classify NodeRules path
   \<and> JavaProvider_determineSource os path = classify (JavaRules (Getenv os ''JAVA_HOME'')) path
   \<and> PythonProvider_determineSource path = classify PythonRules path
   \<and> PHPProvider_determineSource path = classify PHPRules path
   \<and> RustProvider_determineSource path = classify RustRules path
   \<and> (i < length rules \<and> fst (rules ! i) path \<and> (\<forall>j < i. \<not> fst (rules ! j) path) \<longrightarrow>
        classify rules path = snd (rules ! i))
   \<and> ((\<forall>r \<in> set rules. \<not> fst r path) \<longrightarrow> classify rules path = SourceUnknown)
   \<and> (Contains path ''.goenv'' \<and> (Contains path ''/opt/homebrew'' \<or> Contains path ''/usr/local/Cellar'') \<longrightarrow>
        GoProvider_determineSource path = SourceVersionManager)
   \<and> (Contains path ''.nvm'' \<and> (Contains path ''/opt/homebrew'' \<or> Contains path ''/usr/local/Cellar'') \<longrightarrow>
        NodeProvider_determineSource path = SourceVersionManager)
   \<and> (Contains path ''.sdkman'' \<and> (Contains path ''/opt/homebrew'' \<or> Contains path ''/usr/local/Cellar'') \<longrightarrow>
        JavaProvider_determineSource os path = SourceVersionManager)
   \<and> (Contains path ''.pyenv'' \<and> (Contains path ''/opt/homebrew'' \<or> Contains path ''/usr/local/Cellar'') \<longrightarrow>
        PythonProvider_determineSource path = SourceVersionManager)
   \<and> (Contains path ''.phpenv'' \<and> (Contains path ''/opt/homebrew'' \<or> Contains path ''/usr/local/Cellar'') \<longrightarrow>
        PHPProvider_determineSource path = SourceVersionManager)
   \<and> (Contains path ''.cargo/bin'' \<and> (Contains path ''/opt/homebrew'' \<or> Contains path ''/usr/local/Cellar'') \<longrightarrow>
        RustProvider_determineSource path = SourceVersionManager)
   \<and> (Getenv os ''JAVA_HOME'' = Getenv os' ''JAVA_HOME'' \<longrightarrow>
        JavaProvider_determineSource os path = JavaProvider_determineSource os' path)"
proof (intro conjI impI)
  show "GoProvider_determineSource path = classify GoRules path"
    by (rule determineSource_classify)
  show "NodeProvider_determineSource path = classify NodeRules path"
    by (rule determineSource_classify)
  show "JavaProvider_determineSource os path = classify (JavaRules (Getenv os ''JAVA_HOME'')) path"
    by (rule determineSource_classify)
  show "PythonProvider_determineSource path = classify PythonRules path"
    by (rule determineSource_classify)
  show "PHPProvider_determineSource path = classify PHPRules path"
    by (rule determineSource_classify)
  show "RustProvider_determineSource path = classify RustRules path"
    by (rule determineSource_classify)
  show "classify rules path = snd (rules ! i)"
    if "i < length rules \<and> fst (rules ! i) path \<and> (\<forall>j < i. \<not> fst (rules ! j) path)"
    using that by (intro classify_first_match) simp_all
  show "classify rules path = SourceUnknown" if "\<forall>r \<in> set rules. \<not> fst r path"
    using that by (rule classify_no_match)
  show "GoProvider_determineSource path = SourceVersionManager"
    if "Contains path ''.goenv'' \<and> (Contains path ''/opt/homebrew'' \<or> Contains path ''/usr/local/Cellar'')"
    using that by (intro manager_before_homebrew) simp
  show "NodeProvider_determineSource path = SourceVersionManager"
    if "Contains path ''.nvm'' \<and> (Contains path ''/opt/homebrew'' \<or> Contains path ''/usr/local/Cellar'')"
    using that by (intro manager_before_homebrew) simp
  show "JavaProvider_determineSource os path = SourceVersionManager"
    if "Contains path ''.sdkman'' \<and> (Contains path ''/opt/homebrew'' \<or> Contains path ''/usr/local/Cellar'')"
    using that by (intro manager_before_homebrew) simp
  show "PythonProvider_determineSource path = SourceVersionManager"
    if "Contains path ''.pyenv'' \<and> (Contains path ''/opt/homebrew'' \<or> Contains path ''/usr/local/Cellar'')"
    using that by (intro manager_before_homebrew) simp
  show "PHPProvider_determineSource path = SourceVersionManager"
    if "Contains path ''.phpenv'' \<and> (Contains path ''/opt/homebrew'' \<or> Contains path ''/usr/local/Cellar'')"
    using that by (intro manager_before_homebrew) simp
  show "RustProvider_determineSource path = SourceVersionManager"
    if "Contains path ''.cargo/bin'' \<and> (Contains path ''/opt/homebrew'' \<or> Contains path ''/usr/local/Cellar'')"
    using that by (intro manager_before_homebrew) simp
  show "JavaProvider_determineSource os path = JavaProvider_determineSource os' path"
    if "Getenv os ''JAVA_HOME'' = Getenv os' ''JAVA_HOME''"
    using that by (simp add: JavaProvider_determineSource_def)
qed

theorem determineSource_first_match_wins_witness:
  "GoProvider_determineSource ''/opt/homebrew/opt/.goenv/versions/1.21.3/bin/go'' = SourceVersionManager
   \<and> classify GoRules ''/opt/homebrew/opt/.goenv/versions/1.21.3/bin/go'' = SourceVersionManager
   \<and> classify GoRules ''/snap/bin/go'' = SourceUnknown"
proof -
  note at_goenv = determineSource_first_match_wins [where path = "''/opt/homebrew/opt/.goenv/versions/1.21.3/bin/go''"
      and rules = GoRules and i = 0 and os = demo and os' = demo]
  note at_snap = determineSource_first_match_wins [where path = "''/snap/bin/go''"
      and rules = GoRules and i = 0 and os = demo and os' = demo]
  from at_goenv [THEN conjunct2, THEN conjunct2, THEN conjunct2, THEN conjunct2, THEN conjunct2, THEN conjunct2, THEN conjunct2, THEN conjunct2, THEN conjunct1] goenv_under_homebrew
  have manager: "GoProvider_determineSource ''/opt/homebrew/opt/.goenv/versions/1.21.3/bin/go'' = SourceVersionManager"
    by (rule mp)
  from manager have first: "classify GoRules ''/opt/homebrew/opt/.goenv/versions/1.21.3/bin/go'' = SourceVersionManager"
    by (simp only: at_goenv [THEN conjunct1])
  from at_snap [THEN conjunct2, THEN conjunct2, THEN conjunct2, THEN conjunct2, THEN conjunct2, THEN conjunct2, THEN conjunct2, THEN conjunct1] snap_matches_no_rule
  have unknown: "classify GoRules ''/snap/bin/go'' = SourceUnknown"
    by (rule mp)
  from manager first unknown show ?thesis by (intro conjI)
qed

section \<open>Measuring the caches\<close>

lemma totalOf_sum: "totalOf items = sum_list (map Size items)"
proof -
  have "foldl (\<lambda>sum item. sum + Size item) a items = a + sum_list (map Size items)" for a
    by (induction items arbitrary: a) (simp_all add: add.assoc)
  then show ?thesis by (simp add: totalOf_def)
qed

lemma PHPProvider_usage_total:
  "PHPProvider_GetGlobalCacheUsage os w = Return (usage, err) \<Longrightarrow>
   \<exists>d. usage = Some d \<and> err = None \<and> Total d = sum_list (map Size (Items d))"
  by (auto simp: PHPProvider_GetGlobalCacheUsage_def Let_def totalOf_sum split: go.splits)

lemma usage_total:
  "\<exists>d. GoProvider_GetGlobalCacheUsage os w = Return (Some d, None)
      \<and> Total d = sum_list (map Size (Items d))"
  "\<exists>d. NodeProvider_GetGlobalCacheUsage os w = Return (Some d, None)
      \<and> Total d = sum_list (map Size (Items d))"
  "\<exists>d. JavaProvider_GetGlobalCacheUsage os w = Return (Some d, None)
      \<and> Total d = sum_list (map Size (Items d))"
  "\<exists>d. PythonProvider_GetGlobalCacheUsage os w = Return (Some d, None)
      \<and> Total d = sum_list (map Size (Items d))"
  "\<exists>d. RustProvider_GetGlobalCacheUsage os w = Return (Some d, None)
      \<and> Total d = sum_list (map Size (Items d))"
  by (simp_all add: GoProvider_GetGlobalCacheUsage_def NodeProvider_GetGlobalCacheUsage_def
      JavaProvider_GetGlobalCacheUsage_def PythonProvider_GetGlobalCacheUsage_def
      RustProvider_GetGlobalCacheUsage_def Let_def totalOf_sum)

text \<open>
  C6. The Go, Node.js, Java, Python and Rust providers always return a usage whose
  total is the sum of its items' sizes (\<open>usage_total\<close>), and so does every usage
  \<open>PHPProvider.GetGlobalCacheUsage\<close> returns (\<open>PHPProvider_usage_total\<close>), as on a
  machine with \<open>php\<close> in Homebrew's cellar; but the bound of the slice that cuts the
  installation directory out of the path is not checked. Where \<open>php\<close> resolves to
  \<open>/Cellar/php/opt/homebrew/php\<close>, \<open>idx\<close> is 0, \<open>/bin\<close> is not found, the bound is
  \<open>-1\<close>, and the call panics: it returns no usage.
\<close>

theorem PHPProvider_GetGlobalCacheUsage_panics:
  "PHPProvider_GetGlobalCacheUsage phpAtRootCellar cacheFiles = Panic ''slice bounds out of range''
   \<and> PHPProvider_GetGlobalCacheUsage phpAtHomebrew cacheFiles =
       Return (Some \<lparr>Items = [\<lparr>Path = ''~/.composer/cache'', Description = ''Composer Cache'',
                      Size = 13\<rparr>], Total = 13\<rparr>, None)"
  by code_simp

end
